theory Spec2Isabelle
  imports Main "HOL-Library.Word" "HOL-Library.AList"
begin

unbundle bit_operations_syntax

section \<open>The EFS provisioner: volume directory lifecycle\<close>

text \<open>
  A shallow embedding of the three Go files of the EFS provisioner:
  \<^verbatim>\<open>efs-provisioner.go\<close> (Provision, createVolume, the path functions, Delete),
  \<^verbatim>\<open>filesystemreclaimer.go\<close> (Reclaim, validatePreexistingVolume, volumeExists) and
  the metadata file (volumeMetadata, writeVolumeMetadata, readVolumeMetadata).
  Go strings are byte strings (\<^typ>\<open>string\<close>), Go's \<^verbatim>\<open>int\<close> is \<^typ>\<open>int\<close> with the
  64-bit range checked where a parser checks it, \<^verbatim>\<open>uint32\<close> is \<^typ>\<open>32 word\<close>.
\<close>

subsection \<open>Go standard library: strings\<close>

text \<open>\<^verbatim>\<open>strings.HasPrefix(s, prefix)\<close>: a test on bytes, not on path elements.\<close>

definition HasPrefix :: "string \<Rightarrow> string \<Rightarrow> bool" where
  "HasPrefix s pre = (take (length pre) s = pre)"

text \<open>\<^verbatim>\<open>strings.Replace(s, old, new, 1)\<close>: the first occurrence of \<open>old\<close>, wherever it is.\<close>

fun Replace1 :: "string \<Rightarrow> string \<Rightarrow> string \<Rightarrow> string" where
  "Replace1 [] old new = (if old = [] then new else [])"
| "Replace1 (c # cs) old new =
     (if HasPrefix (c # cs) old then new @ drop (length old) (c # cs)
      else c # Replace1 cs old new)"

text \<open>\<^verbatim>\<open>strings.ToLower\<close> on the ASCII letters (the keys it is compared with are ASCII).\<close>

definition lower_char :: "char \<Rightarrow> char" where
  "lower_char c =
     (let n = (of_char c :: nat) in if 65 \<le> n \<and> n \<le> 90 then char_of (n + 32) else c)"

definition ToLower :: "string \<Rightarrow> string" where
  "ToLower s = map lower_char s"

subsection \<open>Go standard library: strconv\<close>

text \<open>\<^verbatim>\<open>strconv.ParseBool\<close> accepts exactly these twelve spellings.\<close>

definition ParseBool :: "string \<Rightarrow> bool option" where
  "ParseBool s =
     (if s \<in> set [''1'', ''t'', ''T'', ''TRUE'', ''true'', ''True''] then Some True
      else if s \<in> set [''0'', ''f'', ''F'', ''FALSE'', ''false'', ''False''] then Some False
      else None)"

definition is_digit :: "char \<Rightarrow> bool" where
  "is_digit c = (48 \<le> (of_char c :: nat) \<and> (of_char c :: nat) \<le> 57)"

definition digit_val :: "char \<Rightarrow> int" where
  "digit_val c = of_char c - 48"

definition digits_val :: "string \<Rightarrow> int" where
  "digits_val s = foldl (\<lambda>acc c. 10 * acc + digit_val c) 0 s"

text \<open>
  \<^verbatim>\<open>strconv.ParseUint(s, 10, 32)\<close>: decimal digits only (no sign), at least one, and a
  value below \<open>2 ^ 32\<close>; \<open>None\<close> is the syntax or range error.
\<close>

definition ParseUint32 :: "string \<Rightarrow> 32 word option" where
  "ParseUint32 s =
     (if s = [] \<or> \<not> list_all is_digit s then None
      else if digits_val s \<ge> 2 ^ 32 then None
      else Some (word_of_int (digits_val s)))"

text \<open>
  \<^verbatim>\<open>strconv.Atoi\<close>: an optional sign, then decimal digits, and a value that fits Go's
  64-bit \<^verbatim>\<open>int\<close>.
\<close>

definition Atoi :: "string \<Rightarrow> int option" where
  "Atoi s =
     (let neg = (s \<noteq> [] \<and> hd s = CHR ''-'');
          ds = (if s \<noteq> [] \<and> (hd s = CHR ''+'' \<or> hd s = CHR ''-'') then tl s else s)
      in if ds = [] \<or> \<not> list_all is_digit ds then None
         else if neg then
           (if digits_val ds > 2 ^ 63 then None else Some (- digits_val ds))
         else
           (if digits_val ds \<ge> 2 ^ 63 then None else Some (digits_val ds)))"

text \<open>\<^verbatim>\<open>strconv.Itoa\<close> (and \<^verbatim>\<open>strconv.FormatInt(i, 10)\<close>): the decimal numeral.\<close>

fun nat_digits :: "nat \<Rightarrow> string" where
  "nat_digits n =
     (if n < 10 then [char_of (48 + n)]
      else nat_digits (n div 10) @ [char_of (48 + n mod 10)])"

definition Itoa :: "int \<Rightarrow> string" where
  "Itoa i = (if i < 0 then CHR ''-'' # nat_digits (nat (- i)) else nat_digits (nat i))"

subsection \<open>Go standard library: path\<close>

fun split_slash :: "string \<Rightarrow> string list" where
  "split_slash [] = [[]]"
| "split_slash (c # cs) =
     (if c = CHR ''/'' then [] # split_slash cs
      else (case split_slash cs of [] \<Rightarrow> [[c]] | x # xs \<Rightarrow> (c # x) # xs))"

fun join_slash :: "string list \<Rightarrow> string" where
  "join_slash [] = []"
| "join_slash [e] = e"
| "join_slash (e # es) = e @ CHR ''/'' # join_slash es"

text \<open>
  The elements of \<^verbatim>\<open>path.Clean\<close>, left to right over the elements of the path; \<open>out\<close>
  is the output so far, last element first. An empty element and \<open>.\<close> are dropped;
  \<open>..\<close> removes the element before it, is dropped at the root, and is kept at the
  start of a path that is not rooted.
\<close>

fun clean_elems :: "bool \<Rightarrow> string list \<Rightarrow> string list \<Rightarrow> string list" where
  "clean_elems rooted [] out = rev out"
| "clean_elems rooted (e # es) out =
     (if e = [] \<or> e = ''.'' then clean_elems rooted es out
      else if e = ''..'' then
        (case out of
           [] \<Rightarrow> if rooted then clean_elems rooted es out else clean_elems rooted es [e]
         | t # ts \<Rightarrow>
             if t = ''..'' then
               (if rooted then clean_elems rooted es out else clean_elems rooted es (e # out))
             else clean_elems rooted es ts)
      else clean_elems rooted es (e # out))"

definition Clean :: "string \<Rightarrow> string" where
  "Clean p =
     (if p = [] then ''.''
      else
        (let rooted = (hd p = CHR ''/'');
             body = join_slash (clean_elems rooted (split_slash p) [])
         in if rooted then CHR ''/'' # body
            else if body = [] then ''.'' else body))"

text \<open>
  \<^verbatim>\<open>path.Join\<close>: the elements from the first that is not empty, joined by slashes and
  cleaned; the empty string when every element is empty.
\<close>

definition Join :: "string list \<Rightarrow> string" where
  "Join elems =
     (let es = dropWhile (\<lambda>e. e = []) elems
      in if es = [] then [] else Clean (join_slash es))"

subsection \<open>Errors\<close>

text \<open>
  One constructor for each place where the source makes an error (the message it
  formats there), and one for each error of the operating system, of \<^verbatim>\<open>encoding/json\<close>
  and of the GID allocator that the source tests for or hands on.
\<close>

datatype error =
    ErrSelectorNotSupported
  | ErrInvalidReuseVolumes
  | ErrInvalidGidAllocate
  | ErrIsFile
  | ErrReadMetadataFailed
  | ErrNoMetadata
  | ErrStorageClassMismatch
  | ErrClaimMismatch
  | ErrGidMismatch
  | ErrInvalidMetadataGid
  | ErrDirectoryGidMismatch
  | ErrChgrpFailed
  | ErrServerMismatch
  | ErrNotChild
  | ErrNilNFS
  | ErrNotExist
  | ErrIsDir
  | ErrNotDir
  | ErrIO
  | ErrParseUint
  | ErrUnmarshal
  | ErrConflict
  | ErrOutOfRange
  | ErrNoFreeGid
  | ErrAllocator

subsection \<open>Data\<close>

record volumeMetadata =
  GID :: string
  PVCName :: string
  PVCNamespace :: string
  StorageClassName :: string

text \<open>
  The bytes of a file, as \<^verbatim>\<open>json.Unmarshal\<close> into a \<^verbatim>\<open>volumeMetadata\<close> reads them:
  \<open>Json md\<close> decodes to \<open>md\<close>, \<open>Unparsable\<close> bytes do not decode.
\<close>

datatype filedata = Json volumeMetadata | Unparsable string

datatype node =
    Dir "32 word" "32 word"
  | File "32 word" "32 word" filedata

fun node_gid :: "node \<Rightarrow> 32 word" where
  "node_gid (Dir g m) = g"
| "node_gid (File g m d) = g"

fun node_IsDir :: "node \<Rightarrow> bool" where
  "node_IsDir (Dir g m) = True"
| "node_IsDir (File g m d) = False"

record PersistentVolumeClaim =
  pvc_Name :: string
  pvc_Namespace :: string
  pvc_Selector :: "string option"
  pvc_ClassAnnotation :: "string option"
  pvc_StorageClassName :: "string option"
  pvc_AccessModes :: "string list"
  pvc_StorageRequest :: string

record VolumeOptions =
  PersistentVolumeReclaimPolicy :: string
  PVName :: string
  PVC :: PersistentVolumeClaim
  Parameters :: "(string \<times> string) list"
  MountOptions :: "string list option"

record NFSVolumeSource =
  nfs_Server :: string
  nfs_Path :: string
  nfs_ReadOnly :: bool

record PersistentVolume =
  pv_Name :: string
  pv_Annotations :: "(string \<times> string) list"
  pv_ReclaimPolicy :: string
  pv_AccessModes :: "string list"
  pv_Capacity :: string
  pv_NFS :: "NFSVolumeSource option"
  pv_MountOptions :: "string list"

text \<open>
  The fields of \<^verbatim>\<open>efsProvisioner\<close> that never change. Its fourth field, the allocator, is
  a reference to shared state: the table it points to is part of the world below.
\<close>

record efsProvisioner =
  dnsName :: string
  mountpoint :: string
  source :: string

record fileSystemReclaimer =
  BasePath :: string

text \<open>
  Modelled from the spec: the GID Allocation Table of the allocator library (its code
  is not among the sources). The table maps the GIDs of a numeric range to "in use".
\<close>

record gidtable =
  gid_min :: int
  gid_max :: int
  used :: "int list"

subsection \<open>The world: the mounted file system, the allocator and the calls made\<close>

datatype extcall =
    CallStat string
  | CallReadFile string
  | CallWriteFile string
  | CallMkdirAll string
  | CallChmod string
  | CallChgrp string
  | CallRemoveAll string
  | CallReadDir string
  | CallAllocateNext
  | CallAllocate int
  | CallRelease

text \<open>
  \<open>nodes\<close> maps a path, as the provisioner builds it with \<^verbatim>\<open>path.Join\<close>, to what is
  there: a directory with its group id and mode, or a file with its group id, mode and
  contents. A call looks at the node of its own path only; \<^verbatim>\<open>MkdirAll\<close> makes the missing
  parents and \<^verbatim>\<open>RemoveAll\<close> removes what is below. \<open>refused\<close> are the calls that fail
  for a reason outside the model (an I/O error, a permission, a full disk); a refused
  call changes nothing. \<open>calls\<close> is the log of the calls made so far. \<open>umask\<close> and
  \<open>egid\<close> are those of the process, and \<open>table\<close> is the allocation table the
  provisioner's allocator refers to.
\<close>

record world =
  nodes :: "(string \<times> node) list"
  umask :: "32 word"
  egid :: "32 word"
  table :: gidtable
  refused :: "extcall \<Rightarrow> bool"
  calls :: "extcall list"

definition log :: "extcall \<Rightarrow> world \<Rightarrow> world" where
  "log c w = w\<lparr>calls := calls w @ [c]\<rparr>"

definition ModeSetgid :: "32 word" where
  "ModeSetgid = push_bit 22 1"

subsection \<open>Operating system calls\<close>

definition os_Stat :: "world \<Rightarrow> string \<Rightarrow> (error + node) \<times> world" where
  "os_Stat w path =
     (if refused w (CallStat path) then (Inl ErrIO, log (CallStat path) w)
      else case map_of (nodes w) path of
             None \<Rightarrow> (Inl ErrNotExist, log (CallStat path) w)
           | Some n \<Rightarrow> (Inr n, log (CallStat path) w))"

definition os_ReadFile :: "world \<Rightarrow> string \<Rightarrow> (error + filedata) \<times> world" where
  "os_ReadFile w path =
     (if refused w (CallReadFile path) then (Inl ErrIO, log (CallReadFile path) w)
      else case map_of (nodes w) path of
             None \<Rightarrow> (Inl ErrNotExist, log (CallReadFile path) w)
           | Some (Dir g m) \<Rightarrow> (Inl ErrIsDir, log (CallReadFile path) w)
           | Some (File g m d) \<Rightarrow> (Inr d, log (CallReadFile path) w))"

text \<open>
  \<^verbatim>\<open>ioutil.WriteFile\<close>: creates the file with the permission (less the umask), or
  replaces the contents of the file that is there and keeps its permission.
\<close>

definition os_WriteFile ::
  "world \<Rightarrow> string \<Rightarrow> filedata \<Rightarrow> 32 word \<Rightarrow> error option \<times> world" where
  "os_WriteFile w path d perm =
     (if refused w (CallWriteFile path) then (Some ErrIO, log (CallWriteFile path) w)
      else case map_of (nodes w) path of
             None \<Rightarrow>
               (None, log (CallWriteFile path)
                  (w\<lparr>nodes := AList.update path (File (egid w) (perm AND NOT (umask w)) d) (nodes w)\<rparr>))
           | Some (Dir g m) \<Rightarrow> (Some ErrIsDir, log (CallWriteFile path) w)
           | Some (File g m d0) \<Rightarrow>
               (None, log (CallWriteFile path)
                  (w\<lparr>nodes := AList.update path (File g m d) (nodes w)\<rparr>)))"

text \<open>
  The parent \<^verbatim>\<open>os.MkdirAll\<close> creates first: the path less its trailing slashes and its
  last element, when that leaves more than the root.
\<close>

definition mkdir_parent :: "string \<Rightarrow> string option" where
  "mkdir_parent path =
     (if length (rev (dropWhile (\<lambda>c. c \<noteq> CHR ''/'')
           (dropWhile (\<lambda>c. c = CHR ''/'') (rev path)))) > 1
      then Some (butlast (rev (dropWhile (\<lambda>c. c \<noteq> CHR ''/'')
           (dropWhile (\<lambda>c. c = CHR ''/'') (rev path)))))
      else None)"

function MkdirAll_nodes ::
  "32 word \<Rightarrow> 32 word \<Rightarrow> (string \<times> node) list \<Rightarrow> string \<Rightarrow> error + (string \<times> node) list" where
  "MkdirAll_nodes g m ns path =
     (case map_of ns path of
        Some (Dir g0 m0) \<Rightarrow> Inr ns
      | Some (File g0 m0 d0) \<Rightarrow> Inl ErrNotDir
      | None \<Rightarrow>
          (case mkdir_parent path of
             None \<Rightarrow> Inr (AList.update path (Dir g m) ns)
           | Some parent \<Rightarrow>
               (case MkdirAll_nodes g m ns parent of
                  Inl e \<Rightarrow> Inl e
                | Inr ns' \<Rightarrow> Inr (AList.update path (Dir g m) ns'))))"
  by pat_completeness auto
termination
proof (relation "measure (\<lambda>(g, m, ns, path). length path)")
  show "wf (measure (\<lambda>(g, m, ns, path). length path))" by simp
next
  fix g m :: "32 word" and ns :: "(string \<times> node) list" and path parent :: string
  assume "mkdir_parent path = Some parent"
  then have "parent = butlast (rev (dropWhile (\<lambda>c. c \<noteq> CHR ''/'')
           (dropWhile (\<lambda>c. c = CHR ''/'') (rev path))))"
    and "length (rev (dropWhile (\<lambda>c. c \<noteq> CHR ''/'')
           (dropWhile (\<lambda>c. c = CHR ''/'') (rev path)))) > 1"
    by (auto simp: mkdir_parent_def split: if_splits)
  moreover have "length (dropWhile (\<lambda>c. c \<noteq> CHR ''/'')
           (dropWhile (\<lambda>c. c = CHR ''/'') (rev path))) \<le> length path"
    by (metis length_dropWhile_le length_rev order_trans)
  ultimately have "length parent < length path" by simp
  then show "((g, m, ns, parent), (g, m, ns, path)) \<in> measure (\<lambda>(g, m, ns, path). length path)"
    by simp
qed

definition os_MkdirAll :: "world \<Rightarrow> string \<Rightarrow> 32 word \<Rightarrow> error option \<times> world" where
  "os_MkdirAll w path perm =
     (if refused w (CallMkdirAll path) then (Some ErrIO, log (CallMkdirAll path) w)
      else case MkdirAll_nodes (egid w) (perm AND NOT (umask w)) (nodes w) path of
             Inl e \<Rightarrow> (Some e, log (CallMkdirAll path) w)
           | Inr ns \<Rightarrow> (None, log (CallMkdirAll path) (w\<lparr>nodes := ns\<rparr>)))"

definition os_Chmod :: "world \<Rightarrow> string \<Rightarrow> 32 word \<Rightarrow> error option \<times> world" where
  "os_Chmod w path perm =
     (if refused w (CallChmod path) then (Some ErrIO, log (CallChmod path) w)
      else case map_of (nodes w) path of
             None \<Rightarrow> (Some ErrNotExist, log (CallChmod path) w)
           | Some (Dir g m) \<Rightarrow>
               (None, log (CallChmod path) (w\<lparr>nodes := AList.update path (Dir g perm) (nodes w)\<rparr>))
           | Some (File g m d) \<Rightarrow>
               (None, log (CallChmod path) (w\<lparr>nodes := AList.update path (File g perm d) (nodes w)\<rparr>)))"

text \<open>
  \<^verbatim>\<open>exec.Command("chgrp", gid, path)\<close>: the command fails when it is refused, when the
  number is not a group id, and when nothing is at the path.
\<close>

definition exec_chgrp :: "world \<Rightarrow> string \<Rightarrow> string \<Rightarrow> error option \<times> world" where
  "exec_chgrp w gidstr path =
     (if refused w (CallChgrp path) then (Some ErrIO, log (CallChgrp path) w)
      else case ParseUint32 gidstr of
             None \<Rightarrow> (Some ErrIO, log (CallChgrp path) w)
           | Some g \<Rightarrow>
               (case map_of (nodes w) path of
                  None \<Rightarrow> (Some ErrNotExist, log (CallChgrp path) w)
                | Some (Dir g0 m) \<Rightarrow>
                    (None, log (CallChgrp path) (w\<lparr>nodes := AList.update path (Dir g m) (nodes w)\<rparr>))
                | Some (File g0 m d) \<Rightarrow>
                    (None, log (CallChgrp path) (w\<lparr>nodes := AList.update path (File g m d) (nodes w)\<rparr>))))"

text \<open>\<open>is_under p q\<close>: \<open>q\<close> is \<open>p\<close> or lies in the tree below \<open>p\<close>.\<close>

definition is_under :: "string \<Rightarrow> string \<Rightarrow> bool" where
  "is_under p q =
     (q = p \<or> HasPrefix q (if p \<noteq> [] \<and> last p = CHR ''/'' then p else p @ ''/''))"

text \<open>\<^verbatim>\<open>os.RemoveAll\<close>: removes the path and all below it; nothing there is no error.\<close>

definition os_RemoveAll :: "world \<Rightarrow> string \<Rightarrow> error option \<times> world" where
  "os_RemoveAll w path =
     (if refused w (CallRemoveAll path) then (Some ErrIO, log (CallRemoveAll path) w)
      else (None, log (CallRemoveAll path)
              (w\<lparr>nodes := filter (\<lambda>(q, n). \<not> is_under path q) (nodes w)\<rparr>)))"

text \<open>
  \<^verbatim>\<open>ioutil.ReadDir\<close>: the entries directly in the directory, sorted by name (bytewise).
\<close>

fun str_less :: "string \<Rightarrow> string \<Rightarrow> bool" where
  "str_less [] [] = False"
| "str_less [] (y # ys) = True"
| "str_less (x # xs) [] = False"
| "str_less (x # xs) (y # ys) =
     ((of_char x :: nat) < of_char y \<or> (x = y \<and> str_less xs ys))"

fun insert_entry :: "string \<times> bool \<Rightarrow> (string \<times> bool) list \<Rightarrow> (string \<times> bool) list" where
  "insert_entry e [] = [e]"
| "insert_entry e (x # xs) =
     (if str_less (fst x) (fst e) then x # insert_entry e xs else e # x # xs)"

definition base_name :: "string \<Rightarrow> string" where
  "base_name q = rev (takeWhile (\<lambda>c. c \<noteq> CHR ''/'') (rev q))"

definition dir_entries :: "(string \<times> node) list \<Rightarrow> string \<Rightarrow> (string \<times> bool) list" where
  "dir_entries ns path =
     foldr insert_entry
       (map (\<lambda>(q, n). (base_name q, node_IsDir n))
          (filter (\<lambda>(q, n). base_name q \<noteq> [] \<and> q = Join [path, base_name q] \<and> q \<noteq> Clean path) ns))
       []"

definition os_ReadDir :: "world \<Rightarrow> string \<Rightarrow> (error + (string \<times> bool) list) \<times> world" where
  "os_ReadDir w path =
     (if refused w (CallReadDir path) then (Inl ErrIO, log (CallReadDir path) w)
      else case map_of (nodes w) path of
             None \<Rightarrow> (Inl ErrNotExist, log (CallReadDir path) w)
           | Some (File g m d) \<Rightarrow> (Inl ErrNotDir, log (CallReadDir path) w)
           | Some (Dir g m) \<Rightarrow> (Inr (dir_entries (nodes w) path), log (CallReadDir path) w))"

subsection \<open>The GID allocator\<close>

text \<open>
  Modelled from the spec: allocate-specific on the GID Allocation Table. A GID outside
  the table's range is an error, a GID already present in the table is the conflict
  \<^verbatim>\<open>allocator.ErrConflict\<close>, and any other GID is entered.
\<close>

definition table_Allocate :: "gidtable \<Rightarrow> int \<Rightarrow> error + gidtable" where
  "table_Allocate t g =
     (if g < gid_min t \<or> gid_max t < g then Inl ErrOutOfRange
      else if g \<in> set (used t) then Inl ErrConflict
      else Inr (t\<lparr>used := g # used t\<rparr>))"

text \<open>
  Modelled from the spec: allocate-next on the GID Allocation Table, the lowest GID of
  the range that is not in use (one of the first \<open>length (used t) + 1\<close> of the range is
  free), or an error when the range has none.
\<close>

definition table_AllocateNext :: "gidtable \<Rightarrow> error + int \<times> gidtable" where
  "table_AllocateNext t =
     (case find (\<lambda>g. g \<notin> set (used t)) [gid_min t .. gid_min t + int (length (used t))] of
        None \<Rightarrow> Inl ErrNoFreeGid
      | Some g \<Rightarrow>
          if gid_max t < g then Inl ErrNoFreeGid else Inr (g, t\<lparr>used := g # used t\<rparr>))"

text \<open>
  Modelled from the spec: release on the GID Allocation Table; releasing a GID that is
  free or was never allocated is not an error.
\<close>

definition table_Release :: "gidtable \<Rightarrow> int \<Rightarrow> gidtable" where
  "table_Release t g = t\<lparr>used := removeAll g (used t)\<rparr>"

definition VolumeGidAnnotationKey :: string where
  "VolumeGidAnnotationKey = ''pv.beta.kubernetes.io/gid''"

text \<open>
  Modelled from the spec: \<^verbatim>\<open>allocator.AllocateNext(options)\<close> of the allocator library,
  on the table of the request's class.
\<close>

definition AllocateNext :: "world \<Rightarrow> VolumeOptions \<Rightarrow> (error + int) \<times> world" where
  "AllocateNext w options =
     (if refused w CallAllocateNext then (Inl ErrAllocator, log CallAllocateNext w)
      else case table_AllocateNext (table w) of
             Inl e \<Rightarrow> (Inl e, log CallAllocateNext w)
           | Inr (g, t) \<Rightarrow> (Inr g, log CallAllocateNext (w\<lparr>table := t\<rparr>)))"

text \<open>
  Modelled from the spec: \<^verbatim>\<open>allocator.Release(volume)\<close> of the allocator library, which
  releases the GID of the volume's annotation, when it has one that is a number.
\<close>

definition Release :: "world \<Rightarrow> PersistentVolume \<Rightarrow> error option \<times> world" where
  "Release w volume =
     (if refused w CallRelease then (Some ErrAllocator, log CallRelease w)
      else case map_of (pv_Annotations volume) VolumeGidAnnotationKey of
             None \<Rightarrow> (None, log CallRelease w)
           | Some s \<Rightarrow>
               (case Atoi s of
                  None \<Rightarrow> (None, log CallRelease w)
                | Some g \<Rightarrow> (None, log CallRelease (w\<lparr>table := table_Release (table w) g\<rparr>))))"

subsection \<open>Volume metadata\<close>

definition metadataFile :: string where
  "metadataFile = ''.kube-efs-provisioner-metadata''"

text \<open>\<^verbatim>\<open>GidAsUInt\<close> returns the pair Go returns: zero goes with the error.\<close>

definition GidAsUInt :: "volumeMetadata \<Rightarrow> 32 word \<times> error option" where
  "GidAsUInt v =
     (case ParseUint32 (GID v) of
        None \<Rightarrow> (0, Some ErrParseUint)
      | Some gid \<Rightarrow> (gid, None))"

text \<open>
  \<^verbatim>\<open>json.MarshalIndent\<close> of a struct of four strings, and \<^verbatim>\<open>json.Unmarshal\<close> into one.
\<close>

definition json_MarshalIndent :: "volumeMetadata \<Rightarrow> error + filedata" where
  "json_MarshalIndent md = Inr (Json md)"

fun json_Unmarshal :: "filedata \<Rightarrow> error + volumeMetadata" where
  "json_Unmarshal (Json md) = Inr md"
| "json_Unmarshal (Unparsable s) = Inl ErrUnmarshal"

definition getMetaDataPath :: "string \<Rightarrow> string" where
  "getMetaDataPath dir = Join [dir, metadataFile]"

definition writeVolumeMetadata :: "world \<Rightarrow> string \<Rightarrow> volumeMetadata \<Rightarrow> error option \<times> world" where
  "writeVolumeMetadata w dir md =
     (case json_MarshalIndent md of
        Inl err \<Rightarrow> (Some err, w)
      | Inr contents \<Rightarrow>
          (case os_WriteFile w (getMetaDataPath dir) contents 384 of
             (Some err, w') \<Rightarrow> (Some err, w')
           | (None, w') \<Rightarrow> (None, w')))"

text \<open>The result \<open>Inr None\<close> is Go's \<^verbatim>\<open>(nil, nil)\<close>: no metadata and no error.\<close>

definition readVolumeMetadata :: "world \<Rightarrow> string \<Rightarrow> (error + volumeMetadata option) \<times> world" where
  "readVolumeMetadata w dir =
     (case os_ReadFile w (getMetaDataPath dir) of
        (Inl err, w') \<Rightarrow> if err = ErrNotExist then (Inr None, w') else (Inl err, w')
      | (Inr content, w') \<Rightarrow>
          (case json_Unmarshal content of
             Inl err \<Rightarrow> (Inl err, w')
           | Inr md \<Rightarrow> (Inr (Some md), w')))"

subsection \<open>The file system reclaimer\<close>

text \<open>\<^verbatim>\<open>helper.GetPersistentVolumeClaimClass\<close>: the beta annotation first, then the spec's field.\<close>

definition GetPersistentVolumeClaimClass :: "PersistentVolumeClaim \<Rightarrow> string" where
  "GetPersistentVolumeClaimClass claim =
     (case pvc_ClassAnnotation claim of
        Some class \<Rightarrow> class
      | None \<Rightarrow> (case pvc_StorageClassName claim of Some class \<Rightarrow> class | None \<Rightarrow> []))"

text \<open>
  One pass of the loop of \<^verbatim>\<open>Reclaim\<close> over the entries of the base path; every
  \<^verbatim>\<open>continue\<close> of the source goes on with the rest of the entries.
\<close>

fun Reclaim_entries :: "string \<Rightarrow> string \<Rightarrow> (string \<times> bool) list \<Rightarrow> world \<Rightarrow> world" where
  "Reclaim_entries base classname [] w = w"
| "Reclaim_entries base classname (entry # entries) w =
     (if \<not> snd entry then Reclaim_entries base classname entries w
      else case readVolumeMetadata w (Join [base, fst entry]) of
             (Inl err, w1) \<Rightarrow> Reclaim_entries base classname entries w1
           | (Inr None, w1) \<Rightarrow> Reclaim_entries base classname entries w1
           | (Inr (Some md), w1) \<Rightarrow>
               if GID md = [] then Reclaim_entries base classname entries w1
               else if StorageClassName md \<noteq> classname then Reclaim_entries base classname entries w1
               else (case Atoi (GID md) of
                       None \<Rightarrow> Reclaim_entries base classname entries w1
                     | Some gid \<Rightarrow>
                         (case table_Allocate (table w1) gid of
                            Inl err \<Rightarrow>
                              if err = ErrConflict
                              then Reclaim_entries base classname entries (log (CallAllocate gid) w1)
                              else Reclaim_entries base classname entries (log (CallAllocate gid) w1)
                          | Inr t \<Rightarrow>
                              Reclaim_entries base classname entries
                                (log (CallAllocate gid) (w1\<lparr>table := t\<rparr>)))))"

definition Reclaim :: "fileSystemReclaimer \<Rightarrow> string \<Rightarrow> world \<Rightarrow> error option \<times> world" where
  "Reclaim f classname w =
     (case os_ReadDir w (BasePath f) of
        (Inl err, w') \<Rightarrow> (Some err, w')
      | (Inr entries, w') \<Rightarrow> (None, Reclaim_entries (BasePath f) classname entries w'))"

definition validatePreexistingVolume ::
  "VolumeOptions \<Rightarrow> volumeMetadata option \<Rightarrow> string \<Rightarrow> 32 word \<Rightarrow> error option" where
  "validatePreexistingVolume options md volumePath existingGID =
     (case md of
        None \<Rightarrow> Some ErrNoMetadata
      | Some m \<Rightarrow>
          if StorageClassName m \<noteq> GetPersistentVolumeClaimClass (PVC options)
          then Some ErrStorageClassMismatch
          else if PVCName m \<noteq> pvc_Name (PVC options) \<or> PVCNamespace m \<noteq> pvc_Namespace (PVC options)
          then Some ErrClaimMismatch
          else if GID m \<noteq> [] then
            (if existingGID \<noteq> fst (GidAsUInt m) then Some ErrGidMismatch else None)
          else None)"

definition volumeExists :: "world \<Rightarrow> string \<Rightarrow> (error + bool \<times> 32 word) \<times> world" where
  "volumeExists w path =
     (case os_Stat w path of
        (Inl err, w') \<Rightarrow> if err = ErrNotExist then (Inr (False, 0), w') else (Inl err, w')
      | (Inr stat, w') \<Rightarrow>
          if \<not> node_IsDir stat then (Inl ErrIsFile, w')
          else (Inr (True, node_gid stat), w'))"

subsection \<open>The provisioner\<close>

definition reuseVolumesOption :: "VolumeOptions \<Rightarrow> error + bool" where
  "reuseVolumesOption options =
     (case map_of (Parameters options) ''reuseVolumes'' of
        Some reuseStr \<Rightarrow>
          (case ParseBool reuseStr of
             None \<Rightarrow> Inl ErrInvalidReuseVolumes
           | Some reuse \<Rightarrow> Inr reuse)
      | None \<Rightarrow> Inr False)"

definition getDirectoryName :: "efsProvisioner \<Rightarrow> VolumeOptions \<Rightarrow> error + string" where
  "getDirectoryName p options =
     (case reuseVolumesOption options of
        Inl err \<Rightarrow> Inl err
      | Inr reuseVolumes \<Rightarrow>
          if reuseVolumes then
            Inr ((case map_of (Parameters options) ''volumePrefix'' of
                    Some pfx \<Rightarrow> if pfx \<noteq> [] then pfx @ ''-'' else []
                  | None \<Rightarrow> [])
                 @ pvc_Name (PVC options) @ ''-'' @ pvc_Namespace (PVC options))
          else Inr (pvc_Name (PVC options) @ ''-'' @ PVName options))"

definition getLocalPath :: "efsProvisioner \<Rightarrow> VolumeOptions \<Rightarrow> error + string" where
  "getLocalPath p options =
     (case getDirectoryName p options of
        Inl err \<Rightarrow> Inl err
      | Inr dirname \<Rightarrow> Inr (Join [mountpoint p, dirname]))"

definition getRemotePath :: "efsProvisioner \<Rightarrow> VolumeOptions \<Rightarrow> error + string" where
  "getRemotePath p options =
     (case getDirectoryName p options of
        Inl err \<Rightarrow> Inl err
      | Inr dirname \<Rightarrow>
          Inr (Join [Clean (Replace1 (source p) (dnsName p @ '':'') []), dirname]))"

text \<open>
  The permission of \<^verbatim>\<open>createVolume\<close>: \<^verbatim>\<open>0777\<close>, or \<^verbatim>\<open>0771 | os.ModeSetgid\<close> with a GID.
\<close>

definition volume_perm :: "int option \<Rightarrow> 32 word" where
  "volume_perm gid = (case gid of None \<Rightarrow> 511 | Some g \<Rightarrow> 505 OR ModeSetgid)"

definition createVolume :: "world \<Rightarrow> string \<Rightarrow> int option \<Rightarrow> error option \<times> world" where
  "createVolume w path gid =
     (case os_MkdirAll w path (volume_perm gid) of
        (Some err, w1) \<Rightarrow> (Some err, w1)
      | (None, w1) \<Rightarrow>
          (case os_Chmod w1 path (volume_perm gid) of
             (Some err, w2) \<Rightarrow> (Some err, snd (os_RemoveAll w2 path))
           | (None, w2) \<Rightarrow>
               (case gid of
                  None \<Rightarrow> (None, w2)
                | Some g \<Rightarrow>
                    (case exec_chgrp w2 (Itoa g) path of
                       (Some err, w3) \<Rightarrow> (Some ErrChgrpFailed, snd (os_RemoveAll w3 path))
                     | (None, w3) \<Rightarrow> (None, w3)))))"

text \<open>
  The loop of \<^verbatim>\<open>Provision\<close> over the parameters, in the order the list gives them.
\<close>

fun gidAllocate_params :: "(string \<times> string) list \<Rightarrow> bool \<Rightarrow> error + bool" where
  "gidAllocate_params [] gidAllocate = Inr gidAllocate"
| "gidAllocate_params ((k, v) # kvs) gidAllocate =
     (if ToLower k = ''gidmin'' then gidAllocate_params kvs gidAllocate
      else if ToLower k = ''gidmax'' then gidAllocate_params kvs gidAllocate
      else if ToLower k = ''gidallocate'' then
        (case ParseBool v of
           None \<Rightarrow> Inl ErrInvalidGidAllocate
         | Some b \<Rightarrow> gidAllocate_params kvs b)
      else gidAllocate_params kvs gidAllocate)"

text \<open>
  The branch of \<^verbatim>\<open>Provision\<close> for a volume that exists (lines 174 to 208): the GID the
  request is to use, or the error. Metadata that is nil never gets past
  \<^verbatim>\<open>validatePreexistingVolume\<close>, which returns the error for it.
\<close>

definition Provision_existing ::
  "VolumeOptions \<Rightarrow> string \<Rightarrow> 32 word \<Rightarrow> world \<Rightarrow> (error + int option) \<times> world" where
  "Provision_existing options volumePath existingGid w =
     (case readVolumeMetadata w volumePath of
        (Inl err, w1) \<Rightarrow> (Inl ErrReadMetadataFailed, w1)
      | (Inr md, w1) \<Rightarrow>
          (case validatePreexistingVolume options md volumePath existingGid of
             Some err \<Rightarrow> (Inl err, w1)
           | None \<Rightarrow>
               (case md of
                  None \<Rightarrow> (Inl ErrNoMetadata, w1)
                | Some m \<Rightarrow>
                    if GID m \<noteq> [] then
                      (case Atoi (GID m) of
                         None \<Rightarrow> (Inl ErrInvalidMetadataGid, w1)
                       | Some mdGidInt \<Rightarrow>
                           if uint existingGid = mdGidInt then (Inr (Some (uint existingGid)), w1)
                           else (Inl ErrDirectoryGidMismatch, w1))
                    else (Inr None, w1))))"

text \<open>
  The branch of \<^verbatim>\<open>Provision\<close> for a volume to create (lines 209 to 253). What
  \<^verbatim>\<open>writeVolumeMetadata\<close> returns is not looked at.
\<close>

definition Provision_new ::
  "VolumeOptions \<Rightarrow> string \<Rightarrow> bool \<Rightarrow> world \<Rightarrow> (error + int option) \<times> world" where
  "Provision_new options volumePath reuseVolumes w =
     (case gidAllocate_params (Parameters options) True of
        Inl err \<Rightarrow> (Inl err, w)
      | Inr gidAllocate \<Rightarrow>
          (case (if gidAllocate then
                   (case AllocateNext w options of
                      (Inl err, w1) \<Rightarrow> (Inl err, w1)
                    | (Inr allocate, w1) \<Rightarrow> (Inr (Some allocate), w1))
                 else (Inr None, w)) of
             (Inl err, w1) \<Rightarrow> (Inl err, w1)
           | (Inr gid, w1) \<Rightarrow>
               (case createVolume w1 volumePath gid of
                  (Some err, w2) \<Rightarrow> (Inl err, w2)
                | (None, w2) \<Rightarrow>
                    if reuseVolumes then
                      (Inr gid,
                       snd (writeVolumeMetadata w2 volumePath
                              \<lparr>GID = (case gid of None \<Rightarrow> [] | Some g \<Rightarrow> Itoa g),
                               PVCName = pvc_Name (PVC options),
                               PVCNamespace = pvc_Namespace (PVC options),
                               StorageClassName = GetPersistentVolumeClaimClass (PVC options)\<rparr>))
                    else (Inr gid, w2))))"

text \<open>The end of \<^verbatim>\<open>Provision\<close> (lines 255 to 293): the volume it returns.\<close>

definition Provision_publish ::
  "efsProvisioner \<Rightarrow> VolumeOptions \<Rightarrow> int option \<Rightarrow> error + PersistentVolume" where
  "Provision_publish p options gid =
     (case getRemotePath p options of
        Inl err \<Rightarrow> Inl err
      | Inr remotePath \<Rightarrow>
          Inr \<lparr>pv_Name = PVName options,
               pv_Annotations =
                 (case gid of None \<Rightarrow> [] | Some g \<Rightarrow> [(VolumeGidAnnotationKey, Itoa g)]),
               pv_ReclaimPolicy = PersistentVolumeReclaimPolicy options,
               pv_AccessModes = pvc_AccessModes (PVC options),
               pv_Capacity = pvc_StorageRequest (PVC options),
               pv_NFS = Some \<lparr>nfs_Server = dnsName p, nfs_Path = remotePath, nfs_ReadOnly = False\<rparr>,
               pv_MountOptions =
                 (case MountOptions options of None \<Rightarrow> [''vers=4.1''] | Some mo \<Rightarrow> mo)\<rparr>)"

definition Provision ::
  "efsProvisioner \<Rightarrow> VolumeOptions \<Rightarrow> world \<Rightarrow> (error + PersistentVolume) \<times> world" where
  "Provision p options w =
     (if pvc_Selector (PVC options) \<noteq> None then (Inl ErrSelectorNotSupported, w)
      else case getLocalPath p options of
        Inl err \<Rightarrow> (Inl err, w)
      | Inr volumePath \<Rightarrow>
          (case reuseVolumesOption options of
             Inl err \<Rightarrow> (Inl err, w)
           | Inr reuseVolumes \<Rightarrow>
               (case (if reuseVolumes then volumeExists w volumePath else (Inr (False, 0), w)) of
                  (Inl err, w1) \<Rightarrow> (Inl err, w1)
                | (Inr (volExists, existingGid), w1) \<Rightarrow>
                    (case (if volExists then Provision_existing options volumePath existingGid w1
                           else Provision_new options volumePath reuseVolumes w1) of
                       (Inl err, w2) \<Rightarrow> (Inl err, w2)
                     | (Inr gid, w2) \<Rightarrow> (Provision_publish p options gid, w2)))))"

definition getLocalPathToDelete :: "efsProvisioner \<Rightarrow> NFSVolumeSource \<Rightarrow> error + string" where
  "getLocalPathToDelete p nfs =
     (if nfs_Server nfs \<noteq> dnsName p then Inl ErrServerMismatch
      else if \<not> HasPrefix (nfs_Path nfs) (Clean (Replace1 (source p) (dnsName p @ '':'') []))
      then Inl ErrNotChild
      else Inr (Join [mountpoint p,
                  Replace1 (nfs_Path nfs) (Clean (Replace1 (source p) (dnsName p @ '':'') [])) []]))"

text \<open>
  \<^verbatim>\<open>Delete\<close>. A volume with no NFS source is a nil dereference in
  \<^verbatim>\<open>getLocalPathToDelete\<close>: the panic is the error \<open>ErrNilNFS\<close>.
\<close>

definition Delete :: "efsProvisioner \<Rightarrow> PersistentVolume \<Rightarrow> world \<Rightarrow> error option \<times> world" where
  "Delete p volume w =
     (case Release w volume of
        (Some err, w1) \<Rightarrow> (Some err, w1)
      | (None, w1) \<Rightarrow>
          (case pv_NFS volume of
             None \<Rightarrow> (Some ErrNilNFS, w1)
           | Some nfs \<Rightarrow>
               (case getLocalPathToDelete p nfs of
                  Inl err \<Rightarrow> (Some err, w1)
                | Inr path \<Rightarrow>
                    (case os_RemoveAll w1 path of
                       (Some err, w2) \<Rightarrow> (Some err, w2)
                     | (None, w2) \<Rightarrow> (None, w2)))))"

subsection \<open>An example installation\<close>

text \<open>
  The file system \<^verbatim>\<open>fs.example.com:/export\<close> mounted at \<^verbatim>\<open>/mnt/efs\<close>, the claim
  \<^verbatim>\<open>claim-a\<close> of the namespace \<^verbatim>\<open>ns1\<close> and class \<^verbatim>\<open>efs\<close>, and worlds with a umask of
  \<^verbatim>\<open>022\<close> and the GIDs from 2000.
\<close>

definition exP :: efsProvisioner where
  "exP = \<lparr>dnsName = ''fs.example.com'', mountpoint = ''/mnt/efs'',
          source = ''fs.example.com:/export''\<rparr>"

definition exClaim :: PersistentVolumeClaim where
  "exClaim = \<lparr>pvc_Name = ''claim-a'', pvc_Namespace = ''ns1'', pvc_Selector = None,
              pvc_ClassAnnotation = None, pvc_StorageClassName = Some ''efs'',
              pvc_AccessModes = [''ReadWriteMany''], pvc_StorageRequest = ''1Gi''\<rparr>"

definition exOptions :: "(string \<times> string) list \<Rightarrow> VolumeOptions" where
  "exOptions params =
     \<lparr>PersistentVolumeReclaimPolicy = ''Delete'', PVName = ''pvc-1'', PVC = exClaim,
      Parameters = params, MountOptions = None\<rparr>"

definition exReuse :: VolumeOptions where
  "exReuse = exOptions [(''reuseVolumes'', ''true'')]"

definition exMeta :: "string \<Rightarrow> string \<Rightarrow> volumeMetadata" where
  "exMeta gid name =
     \<lparr>GID = gid, PVCName = name, PVCNamespace = ''ns1'', StorageClassName = ''efs''\<rparr>"

definition exWorld :: "(string \<times> node) list \<Rightarrow> extcall list \<Rightarrow> world" where
  "exWorld ns rs =
     \<lparr>nodes = (''/mnt/efs'', Dir 0 493) # ns, umask = 18, egid = 0,
      table = \<lparr>gid_min = 2000, gid_max = 2147483647, used = []\<rparr>,
      refused = (\<lambda>c. c \<in> set rs), calls = []\<rparr>"

definition exDir :: string where
  "exDir = ''/mnt/efs/claim-a-ns1''"

definition exSidecar :: string where
  "exSidecar = ''/mnt/efs/claim-a-ns1/.kube-efs-provisioner-metadata''"

text \<open>A world in which the directory of the claim exists, with a sidecar file.\<close>

definition exExisting :: "32 word \<Rightarrow> filedata \<Rightarrow> world" where
  "exExisting gid d =
     exWorld [(exDir, Dir gid (505 OR ModeSetgid)), (exSidecar, File 0 384 d)] []"

definition exVolume :: "string \<Rightarrow> PersistentVolume" where
  "exVolume remotePath =
     \<lparr>pv_Name = ''pvc-9'', pv_Annotations = [], pv_ReclaimPolicy = ''Delete'',
      pv_AccessModes = [''ReadWriteMany''], pv_Capacity = ''1Gi'',
      pv_NFS = Some \<lparr>nfs_Server = ''fs.example.com'', nfs_Path = remotePath, nfs_ReadOnly = False\<rparr>,
      pv_MountOptions = [''vers=4.1'']\<rparr>"

definition exTenants :: world where
  "exTenants =
     exWorld [(''/mnt/efs/foo'', Dir 2001 (505 OR ModeSetgid)),
              (''/mnt/efs/foo/data'', File 2001 420 (Unparsable ''payload''))] []"

text \<open>
  A mount with two directories whose metadata both record the GID 2000 for the class
  \<^verbatim>\<open>efs\<close>, a directory whose sidecar does not parse, a directory with no sidecar and a
  plain file; \<open>gids\<close> are the GIDs in use.
\<close>

definition exFleet :: "int list \<Rightarrow> world" where
  "exFleet gids =
     (exWorld
        [(''/mnt/efs/claim-a-ns1'', Dir 2000 (505 OR ModeSetgid)),
         (''/mnt/efs/claim-a-ns1/.kube-efs-provisioner-metadata'',
            File 0 384 (Json (exMeta ''2000'' ''claim-a''))),
         (''/mnt/efs/claim-b-ns1'', Dir 2000 (505 OR ModeSetgid)),
         (''/mnt/efs/claim-b-ns1/.kube-efs-provisioner-metadata'',
            File 0 384 (Json (exMeta ''2000'' ''claim-b''))),
         (''/mnt/efs/claim-c-ns1'', Dir 2002 (505 OR ModeSetgid)),
         (''/mnt/efs/claim-c-ns1/.kube-efs-provisioner-metadata'',
            File 0 384 (Unparsable ''{'')),
         (''/mnt/efs/claim-d-pvc-7'', Dir 0 511),
         (''/mnt/efs/notes.txt'', File 0 420 (Unparsable ''notes''))] [])
     \<lparr>table := \<lparr>gid_min = 2000, gid_max = 2147483647, used = gids\<rparr>\<rparr>"

text \<open>The volume \<^verbatim>\<open>Provision\<close> returns for the claim, and requests in ephemeral mode.\<close>

definition exPublished :: "(string \<times> string) list \<Rightarrow> string \<Rightarrow> PersistentVolume" where
  "exPublished annotations remotePath =
     \<lparr>pv_Name = ''pvc-1'', pv_Annotations = annotations, pv_ReclaimPolicy = ''Delete'',
      pv_AccessModes = [''ReadWriteMany''], pv_Capacity = ''1Gi'',
      pv_NFS = Some \<lparr>nfs_Server = ''fs.example.com'', nfs_Path = remotePath, nfs_ReadOnly = False\<rparr>,
      pv_MountOptions = [''vers=4.1'']\<rparr>"

definition exEphemeral :: VolumeOptions where
  "exEphemeral = exOptions []"

definition exNoGid :: VolumeOptions where
  "exNoGid = exOptions [(''gidAllocate'', ''false'')]"

definition exEphDir :: string where
  "exEphDir = ''/mnt/efs/claim-a-pvc-1''"

text \<open>A world in which the target of the ephemeral requests holds a directory already.\<close>

definition exOccupied :: world where
  "exOccupied = exWorld [(exEphDir, Dir 2001 448)] []"

section \<open>Properties\<close>

subsection \<open>Decimal numerals\<close>

declare nat_digits.simps [simp del]

lemma is_digit_char_of: "(n::nat) < 10 \<Longrightarrow> is_digit (char_of (48 + n))"
  by (simp add: is_digit_def)

lemma digit_val_char_of: "(n::nat) < 10 \<Longrightarrow> digit_val (char_of (48 + n)) = int n"
proof -
  assume "n < 10"
  then have "(of_char (char_of (48 + n) :: char) :: nat) = 48 + n" by simp
  then have "(of_char (char_of (48 + n) :: char) :: int) = 48 + int n"
    by (metis of_nat_add of_nat_numeral of_nat_of_char)
  then show ?thesis by (simp add: digit_val_def)
qed

lemma digits_val_snoc: "digits_val (xs @ [c]) = 10 * digits_val xs + digit_val c"
  by (simp add: digits_val_def)

lemma nat_digits_all_digits: "list_all is_digit (nat_digits n)"
proof (induction n rule: nat_digits.induct)
  case (1 n)
  show ?case
  proof (cases "n < 10")
    case True
    then show ?thesis by (simp add: nat_digits.simps [of n] is_digit_char_of)
  next
    case False
    with 1 show ?thesis by (simp add: nat_digits.simps [of n] is_digit_char_of)
  qed
qed

lemma nat_digits_nonempty: "nat_digits n \<noteq> []"
  by (simp add: nat_digits.simps [of n])

lemma digits_val_nat_digits: "digits_val (nat_digits n) = int n"
proof (induction n rule: nat_digits.induct)
  case (1 n)
  show ?case
  proof (cases "n < 10")
    case True
    then show ?thesis
      by (simp add: nat_digits.simps [of n] digit_val_char_of digits_val_def)
  next
    case False
    with 1 have "digits_val (nat_digits (n div 10)) = int (n div 10)" by simp
    with False show ?thesis
      by (simp add: nat_digits.simps [of n] digits_val_snoc digit_val_char_of zdiv_int zmod_int)
  qed
qed




lemma ParseUint32_Itoa:
  "ParseUint32 (Itoa g) = (if 0 \<le> g \<and> g < 2 ^ 32 then Some (word_of_int g) else None)"
  by (simp add: ParseUint32_def Itoa_def nat_digits_nonempty nat_digits_all_digits
      digits_val_nat_digits is_digit_def)


declare Replace1.simps [simp del]
declare split_slash.simps [simp del]
declare clean_elems.simps [simp del]

subsection \<open>The calls, one at a time\<close>

lemma log_simps [simp]:
  "nodes (log c w) = nodes w" "umask (log c w) = umask w" "egid (log c w) = egid w"
  "table (log c w) = table w" "refused (log c w) = refused w" "calls (log c w) = calls w @ [c]"
  by (simp_all add: log_def)

lemma volumeExists_dir:
  "\<not> refused w (CallStat path) \<Longrightarrow> map_of (nodes w) path = Some (Dir g m) \<Longrightarrow>
   volumeExists w path = (Inr (True, g), log (CallStat path) w)"
  by (simp add: volumeExists_def os_Stat_def)

lemma readVolumeMetadata_absent:
  "\<not> refused w (CallReadFile (getMetaDataPath dir)) \<Longrightarrow>
   map_of (nodes w) (getMetaDataPath dir) = None \<Longrightarrow>
   readVolumeMetadata w dir = (Inr None, log (CallReadFile (getMetaDataPath dir)) w)"
  by (simp add: readVolumeMetadata_def os_ReadFile_def)

lemma readVolumeMetadata_file:
  "\<not> refused w (CallReadFile (getMetaDataPath dir)) \<Longrightarrow>
   map_of (nodes w) (getMetaDataPath dir) = Some (File g m d) \<Longrightarrow>
   readVolumeMetadata w dir =
     (case json_Unmarshal d of Inl e \<Rightarrow> Inl e | Inr md \<Rightarrow> Inr (Some md),
      log (CallReadFile (getMetaDataPath dir)) w)"
  by (simp add: readVolumeMetadata_def os_ReadFile_def split: sum.splits)

declare MkdirAll_nodes.simps [simp del]

lemma MkdirAll_nodes_existing:
  "map_of ns path = Some (Dir g0 m0) \<Longrightarrow> MkdirAll_nodes g m ns path = Inr ns"
  by (simp add: MkdirAll_nodes.simps [of g m ns path])

lemma MkdirAll_nodes_dir:
  "MkdirAll_nodes g m ns path = Inr ns' \<Longrightarrow> \<exists>g' m'. map_of ns' path = Some (Dir g' m')"
  by (auto simp: MkdirAll_nodes.simps [of g m ns path] update_conv'
      split: option.splits node.splits sum.splits)

lemma MkdirAll_nodes_existing_gid:
  "MkdirAll_nodes g m ns path = Inr ns' \<Longrightarrow> map_of ns path = Some (Dir g0 m0) \<Longrightarrow> ns' = ns"
  by (simp add: MkdirAll_nodes_existing)

lemma os_MkdirAll_frame:
  "refused (snd (os_MkdirAll w path perm)) = refused w"
  "table (snd (os_MkdirAll w path perm)) = table w"
  "calls (snd (os_MkdirAll w path perm)) = calls w @ [CallMkdirAll path]"
  by (simp_all add: os_MkdirAll_def split: sum.splits)

lemma os_Chmod_frame:
  "refused (snd (os_Chmod w path perm)) = refused w"
  "table (snd (os_Chmod w path perm)) = table w"
  "calls (snd (os_Chmod w path perm)) = calls w @ [CallChmod path]"
  by (simp_all add: os_Chmod_def split: option.splits node.splits)

lemma exec_chgrp_frame:
  "refused (snd (exec_chgrp w gidstr path)) = refused w"
  "table (snd (exec_chgrp w gidstr path)) = table w"
  "calls (snd (exec_chgrp w gidstr path)) = calls w @ [CallChgrp path]"
  by (simp_all add: exec_chgrp_def split: option.splits node.splits)

lemma os_RemoveAll_frame:
  "refused (snd (os_RemoveAll w path)) = refused w"
  "table (snd (os_RemoveAll w path)) = table w"
  "calls (snd (os_RemoveAll w path)) = calls w @ [CallRemoveAll path]"
  by (simp_all add: os_RemoveAll_def)

lemma os_MkdirAll_ok:
  "os_MkdirAll w path perm = (None, w1) \<Longrightarrow>
   \<not> refused w (CallMkdirAll path) \<and> (\<exists>g m. map_of (nodes w1) path = Some (Dir g m)) \<and>
   (\<forall>g0 m0. map_of (nodes w) path = Some (Dir g0 m0) \<longrightarrow> nodes w1 = nodes w)"
  by (auto simp: os_MkdirAll_def MkdirAll_nodes_existing split: if_splits sum.splits
      dest: MkdirAll_nodes_dir)

lemma os_Chmod_ok:
  "os_Chmod w path perm = (None, w1) \<Longrightarrow> map_of (nodes w) path = Some (Dir g m) \<Longrightarrow>
   \<not> refused w (CallChmod path) \<and> nodes w1 = AList.update path (Dir g perm) (nodes w)"
  by (auto simp: os_Chmod_def split: if_splits)

lemma exec_chgrp_ok:
  "exec_chgrp w gidstr path = (None, w1) \<Longrightarrow> map_of (nodes w) path = Some (Dir g m) \<Longrightarrow>
   \<not> refused w (CallChgrp path) \<and>
   (\<exists>e. ParseUint32 gidstr = Some e \<and> nodes w1 = AList.update path (Dir e m) (nodes w))"
  by (auto simp: exec_chgrp_def split: if_splits option.splits)

text \<open>What a successful createVolume leaves at the path.\<close>

lemma createVolume_ok:
  assumes "createVolume w path gid = (None, w')"
  shows "refused w' = refused w \<and> table w' = table w \<and>
       \<not> refused w (CallMkdirAll path) \<and> \<not> refused w (CallChmod path) \<and>
       (gid \<noteq> None \<longrightarrow> \<not> refused w (CallChgrp path)) \<and>
       (\<exists>e. map_of (nodes w') path = Some (Dir e (volume_perm gid)) \<and>
             (\<forall>g. gid = Some g \<longrightarrow> ParseUint32 (Itoa g) = Some e) \<and>
             (\<forall>g0 m0. gid = None \<longrightarrow> map_of (nodes w) path = Some (Dir g0 m0) \<longrightarrow> e = g0))"
proof -
  obtain r1 w1 where mk: "os_MkdirAll w path (volume_perm gid) = (r1, w1)"
    by (cases "os_MkdirAll w path (volume_perm gid)")
  obtain r2 w2 where ch: "os_Chmod w1 path (volume_perm gid) = (r2, w2)"
    by (cases "os_Chmod w1 path (volume_perm gid)")
  have r1: "r1 = None" using assms mk by (auto simp: createVolume_def split: option.splits)
  have r2: "r2 = None" using assms mk ch r1 by (auto simp: createVolume_def split: option.splits)
  from os_MkdirAll_ok [OF mk [unfolded r1]] obtain g1 m1 where
    n1: "map_of (nodes w1) path = Some (Dir g1 m1)" and nr1: "\<not> refused w (CallMkdirAll path)"
    and same: "\<forall>g0 m0. map_of (nodes w) path = Some (Dir g0 m0) \<longrightarrow> nodes w1 = nodes w"
    by blast
  have f1: "refused w1 = refused w" "table w1 = table w"
    using os_MkdirAll_frame [of w path "volume_perm gid"] mk by simp_all
  from os_Chmod_ok [OF ch [unfolded r2] n1] have
    n2: "nodes w2 = AList.update path (Dir g1 (volume_perm gid)) (nodes w1)"
    and nr2: "\<not> refused w1 (CallChmod path)" by simp_all
  have f2: "refused w2 = refused w" "table w2 = table w"
    using os_Chmod_frame [of w1 path "volume_perm gid"] ch f1 by simp_all
  have m2: "map_of (nodes w2) path = Some (Dir g1 (volume_perm gid))"
    using n2 by (simp add: update_conv')
  show ?thesis
  proof (cases gid)
    case None
    then have "w' = w2" using assms mk ch r1 r2 by (simp add: createVolume_def)
    moreover have "\<forall>g0 m0. map_of (nodes w) path = Some (Dir g0 m0) \<longrightarrow> g1 = g0"
      using same n1 by auto
    ultimately show ?thesis
      using f2 m2 None nr1 nr2 f1 by auto
  next
    case (Some g)
    obtain r3 w3 where cg: "exec_chgrp w2 (Itoa g) path = (r3, w3)"
      by (cases "exec_chgrp w2 (Itoa g) path")
    have r3: "r3 = None" and w3: "w' = w3"
      using assms mk ch r1 r2 Some cg by (auto simp: createVolume_def split: option.splits)
    from exec_chgrp_ok [OF cg [unfolded r3] m2] obtain e where
      e: "ParseUint32 (Itoa g) = Some e"
      and n3: "nodes w3 = AList.update path (Dir e (volume_perm gid)) (nodes w2)"
      and nr3: "\<not> refused w2 (CallChgrp path)" by blast
    have f3: "refused w3 = refused w" "table w3 = table w"
      using exec_chgrp_frame [of w2 "Itoa g" path] cg f2 by simp_all
    show ?thesis
      using f3 w3 n3 e Some nr1 nr2 nr3 f1 f2 by (auto simp: update_conv')
  qed
qed

text \<open>The calls of createVolume.\<close>

lemma createVolume_calls:
  "\<exists>cs. calls (snd (createVolume w path gid)) = calls w @ cs \<and>
        set cs \<subseteq> {CallMkdirAll path, CallChmod path, CallChgrp path, CallRemoveAll path}"
proof -
  obtain r1 w1 where mk: "os_MkdirAll w path (volume_perm gid) = (r1, w1)"
    by (cases "os_MkdirAll w path (volume_perm gid)")
  obtain r2 w2 where ch: "os_Chmod w1 path (volume_perm gid) = (r2, w2)"
    by (cases "os_Chmod w1 path (volume_perm gid)")
  have c1: "calls w1 = calls w @ [CallMkdirAll path]"
    using os_MkdirAll_frame(3) [of w path "volume_perm gid"] mk by simp
  have c2: "calls w2 = calls w @ [CallMkdirAll path, CallChmod path]"
    using os_Chmod_frame(3) [of w1 path "volume_perm gid"] ch c1 by simp
  show ?thesis
  proof (cases gid)
    case None
    then show ?thesis
      using mk ch c1 c2 by (auto simp: createVolume_def os_RemoveAll_frame split: option.splits)
  next
    case (Some g)
    obtain r3 w3 where cg: "exec_chgrp w2 (Itoa g) path = (r3, w3)"
      by (cases "exec_chgrp w2 (Itoa g) path")
    have c3: "calls w3 = calls w @ [CallMkdirAll path, CallChmod path, CallChgrp path]"
      using exec_chgrp_frame(3) [of w2 "Itoa g" path] cg c2 by simp
    show ?thesis
      using mk ch cg c1 c2 c3 Some
      by (auto simp: createVolume_def os_RemoveAll_frame split: option.splits)
  qed
qed



lemma readVolumeMetadata_world:
  "snd (readVolumeMetadata w dir) = log (CallReadFile (getMetaDataPath dir)) w"
  by (simp add: readVolumeMetadata_def os_ReadFile_def split: option.splits node.splits sum.splits)

lemma table_Allocate_used:
  "gid \<in> set (used t) \<Longrightarrow> \<exists>err. table_Allocate t gid = Inl err"
  by (simp add: table_Allocate_def)

lemma Reclaim_entries_step:
  assumes "readVolumeMetadata w (Join [base, fst entry]) = (r, w1)"
  shows "snd entry \<Longrightarrow> r = Inl err \<Longrightarrow>
           Reclaim_entries base classname (entry # entries) w = Reclaim_entries base classname entries w1"
    and "snd entry \<Longrightarrow> r = Inr None \<Longrightarrow>
           Reclaim_entries base classname (entry # entries) w = Reclaim_entries base classname entries w1"
    and "snd entry \<Longrightarrow> r = Inr (Some md) \<Longrightarrow>
           GID md = [] \<or> StorageClassName md \<noteq> classname \<or> Atoi (GID md) = None \<Longrightarrow>
           Reclaim_entries base classname (entry # entries) w = Reclaim_entries base classname entries w1"
    and "snd entry \<Longrightarrow> r = Inr (Some md) \<Longrightarrow> GID md \<noteq> [] \<Longrightarrow> StorageClassName md = classname \<Longrightarrow>
           Atoi (GID md) = Some gid \<Longrightarrow> table_Allocate (table w1) gid = Inl err \<Longrightarrow>
           Reclaim_entries base classname (entry # entries) w =
             Reclaim_entries base classname entries (log (CallAllocate gid) w1)"
    and "snd entry \<Longrightarrow> r = Inr (Some md) \<Longrightarrow> GID md \<noteq> [] \<Longrightarrow> StorageClassName md = classname \<Longrightarrow>
           Atoi (GID md) = Some gid \<Longrightarrow> table_Allocate (table w1) gid = Inr t \<Longrightarrow>
           Reclaim_entries base classname (entry # entries) w =
             Reclaim_entries base classname entries (log (CallAllocate gid) (w1\<lparr>table := t\<rparr>))"
  using assms by auto

lemma getRemotePath_of_local:
  "getLocalPath p options = Inr volumePath \<Longrightarrow> \<exists>remotePath. getRemotePath p options = Inr remotePath"
  by (auto simp: getLocalPath_def getRemotePath_def split: sum.splits)

lemma gidAllocate_params_error:
  "gidAllocate_params kvs b = Inl e \<Longrightarrow> e = ErrInvalidGidAllocate"
  by (induction kvs b rule: gidAllocate_params.induct) (auto split: if_splits option.splits)

lemma AllocateNext_frame:
  "nodes (snd (AllocateNext w options)) = nodes w"
  "refused (snd (AllocateNext w options)) = refused w"
  "calls (snd (AllocateNext w options)) = calls w @ [CallAllocateNext]"
  by (simp_all add: AllocateNext_def split: sum.splits prod.splits)

lemma AllocateNext_error:
  "fst (AllocateNext w options) = Inl e \<Longrightarrow> e = ErrAllocator \<or> e = ErrNoFreeGid"
  by (auto simp: AllocateNext_def table_AllocateNext_def split: if_splits sum.splits prod.splits option.splits)

lemma createVolume_existing_error:
  assumes "map_of (nodes w) path = Some (Dir g0 m0)"
    and "fst (createVolume w path gid) = Some e"
  shows "e = ErrIO \<or> e = ErrChgrpFailed"
proof -
  have mk: "os_MkdirAll w path (volume_perm gid) =
      (if refused w (CallMkdirAll path) then Some ErrIO else None, log (CallMkdirAll path) w)"
    using assms(1) by (simp add: os_MkdirAll_def MkdirAll_nodes_existing)
  have ch: "os_Chmod (log (CallMkdirAll path) w) path (volume_perm gid) =
      (if refused w (CallChmod path) then (Some ErrIO, log (CallChmod path) (log (CallMkdirAll path) w))
       else (None, log (CallChmod path)
          ((log (CallMkdirAll path) w)\<lparr>nodes := AList.update path (Dir g0 (volume_perm gid)) (nodes w)\<rparr>)))"
    using assms(1) by (simp add: os_Chmod_def)
  show ?thesis
    using assms(2) mk ch
    by (auto simp: createVolume_def split: if_splits option.splits prod.splits)
qed

lemma createVolume_existing_succeeds:
  assumes "map_of (nodes w) path = Some (Dir g0 m0)"
    and "\<not> refused w (CallMkdirAll path)" and "\<not> refused w (CallChmod path)"
    and "\<forall>g. gid = Some g \<longrightarrow> \<not> refused w (CallChgrp path) \<and> 0 \<le> g \<and> g < 2 ^ 32"
  shows "fst (createVolume w path gid) = None"
proof -
  have mk: "os_MkdirAll w path (volume_perm gid) = (None, log (CallMkdirAll path) w)"
    using assms(1,2) by (simp add: os_MkdirAll_def MkdirAll_nodes_existing)
  have ch: "os_Chmod (log (CallMkdirAll path) w) path (volume_perm gid) =
      (None, log (CallChmod path)
          ((log (CallMkdirAll path) w)\<lparr>nodes := AList.update path (Dir g0 (volume_perm gid)) (nodes w)\<rparr>))"
    using assms(1,3) by (simp add: os_Chmod_def)
  show ?thesis
  proof (cases gid)
    case None
    then show ?thesis using mk ch by (simp add: createVolume_def)
  next
    case (Some g)
    with assms(4) have "\<not> refused w (CallChgrp path)" "ParseUint32 (Itoa g) = Some (word_of_int g)"
      by (simp_all add: ParseUint32_Itoa)
    then show ?thesis
      using mk ch Some by (simp add: createVolume_def exec_chgrp_def update_conv')
  qed
qed


lemma Provision_ephemeral:
  assumes "pvc_Selector (PVC options) = None"
    and "reuseVolumesOption options = Inr False"
    and "getLocalPath p options = Inr volumePath"
  shows "Provision p options w =
      (case Provision_new options volumePath False w of
         (Inl err, w2) \<Rightarrow> (Inl err, w2)
       | (Inr gid, w2) \<Rightarrow> (Provision_publish p options gid, w2))"
  using assms by (simp add: Provision_def)

lemma Provision_new_ephemeral:
  "Provision_new options volumePath False w =
     (case gidAllocate_params (Parameters options) True of
        Inl err \<Rightarrow> (Inl err, w)
      | Inr gidAllocate \<Rightarrow>
          if gidAllocate then
            (case fst (AllocateNext w options) of
               Inl err \<Rightarrow> (Inl err, snd (AllocateNext w options))
             | Inr g \<Rightarrow>
                 (case fst (createVolume (snd (AllocateNext w options)) volumePath (Some g)) of
                    Some err \<Rightarrow> (Inl err, snd (createVolume (snd (AllocateNext w options)) volumePath (Some g)))
                  | None \<Rightarrow> (Inr (Some g), snd (createVolume (snd (AllocateNext w options)) volumePath (Some g)))))
          else
            (case fst (createVolume w volumePath None) of
               Some err \<Rightarrow> (Inl err, snd (createVolume w volumePath None))
             | None \<Rightarrow> (Inr None, snd (createVolume w volumePath None))))"
  by (simp add: Provision_new_def split: sum.splits prod.splits option.splits)

lemma Provision_publish_ok:
  "getLocalPath p options = Inr volumePath \<Longrightarrow>
   \<exists>pv. Provision_publish p options gid = Inr pv \<and>
        pv_Annotations pv = (case gid of None \<Rightarrow> [] | Some g \<Rightarrow> [(VolumeGidAnnotationKey, Itoa g)]) \<and>
        (\<exists>remotePath. getRemotePath p options = Inr remotePath \<and>
           pv_NFS pv = Some \<lparr>nfs_Server = dnsName p, nfs_Path = remotePath, nfs_ReadOnly = False\<rparr>)"
  using getRemotePath_of_local [of p options volumePath]
  by (auto simp: Provision_publish_def)

lemma volumeExists_world: "snd (volumeExists w path) = log (CallStat path) w"
  by (simp add: volumeExists_def os_Stat_def split: option.splits)














lemma Release_frame:
  "nodes (snd (Release w volume)) = nodes w"
  "refused (snd (Release w volume)) = refused w"
  "calls (snd (Release w volume)) = calls w @ [CallRelease]"
  by (simp_all add: Release_def split: option.splits)

text \<open>
  What the guard of \<^verbatim>\<open>getLocalPathToDelete\<close> does stop: another server, and a path that
  does not start with the bytes of the exported root.
\<close>

lemma Delete_rejects_foreign:
  assumes "fst (Release w volume) = None"
    and "pv_NFS volume = Some nfs"
    and "nfs_Server nfs \<noteq> dnsName p \<or>
         \<not> HasPrefix (nfs_Path nfs) (Clean (Replace1 (source p) (dnsName p @ '':'') []))"
  shows "(fst (Delete p volume w) = Some ErrServerMismatch \<or>
          fst (Delete p volume w) = Some ErrNotChild) \<and>
         nodes (snd (Delete p volume w)) = nodes w \<and>
         calls (snd (Delete p volume w)) = calls w @ [CallRelease]"
  using assms Release_frame [of w volume]
  by (cases "Release w volume") (auto simp: Delete_def getLocalPathToDelete_def)

subsection \<open>The example installation, evaluated\<close>

lemma ex_paths:
  "Join [''/mnt/efs'', ''claim-a-ns1''] = ''/mnt/efs/claim-a-ns1''"
  "Replace1 ''fs.example.com:/export'' ''fs.example.com:'' [] = ''/export''"
  "Clean ''/export'' = ''/export''"
  "Join [''/export'', ''claim-a-ns1''] = ''/export/claim-a-ns1''"
  by code_simp+

lemma ex_distinct:
  "exDir \<noteq> ''/mnt/efs''" "exSidecar \<noteq> ''/mnt/efs''" "exSidecar \<noteq> exDir"
  by (simp_all add: exDir_def exSidecar_def)

lemma exExisting_simps [simp]:
  "map_of (nodes (exExisting gid d)) exDir = Some (Dir gid (505 OR ModeSetgid))"
  "map_of (nodes (exExisting gid d)) exSidecar = Some (File 0 384 d)"
  "refused (exExisting gid d) c = False"
  "table (exExisting gid d) = \<lparr>gid_min = 2000, gid_max = 2147483647, used = []\<rparr>"
  "calls (exExisting gid d) = []"
  using ex_distinct by (simp_all add: exExisting_def exWorld_def)


lemma exReuse_facts:
  "pvc_Selector (PVC exReuse) = None"
  "reuseVolumesOption exReuse = Inr True"
  "getLocalPath exP exReuse = Inr exDir"
  "getMetaDataPath exDir = exSidecar"
  by code_simp+

lemma exWorld_simps [simp]:
  "nodes (exWorld ns rs) = (''/mnt/efs'', Dir 0 493) # ns"
  "refused (exWorld ns rs) c = (c \<in> set rs)"
  "table (exWorld ns rs) = \<lparr>gid_min = 2000, gid_max = 2147483647, used = []\<rparr>"
  "calls (exWorld ns rs) = []"
  "umask (exWorld ns rs) = 18"
  "egid (exWorld ns rs) = 0"
  by (simp_all add: exWorld_def)

subsection \<open>Claims\<close>

text \<open>
  C1. The deletion request for the volume \<^verbatim>\<open>fs.example.com:/exportfoo\<close>, which is not below
  the exported root \<^verbatim>\<open>/export\<close>: the test of \<^verbatim>\<open>getLocalPathToDelete\<close> is a test on the
  bytes of the path, so the request is taken for a child of the root, and \<^verbatim>\<open>Delete\<close>
  removes the directory \<^verbatim>\<open>/mnt/efs/foo\<close> and what is in it, and returns no error.
\<close>

theorem C1_delete_outside_export:
  "getLocalPathToDelete exP \<lparr>nfs_Server = ''fs.example.com'', nfs_Path = ''/exportfoo'', nfs_ReadOnly = False\<rparr>
     = Inr ''/mnt/efs/foo'' \<and>
   fst (Delete exP (exVolume ''/exportfoo'') exTenants) = None \<and>
   map_of (nodes exTenants) ''/mnt/efs/foo'' = Some (Dir 2001 (505 OR ModeSetgid)) \<and>
   map_of (nodes (snd (Delete exP (exVolume ''/exportfoo'') exTenants))) ''/mnt/efs/foo'' = None \<and>
   map_of (nodes (snd (Delete exP (exVolume ''/exportfoo'') exTenants))) ''/mnt/efs/foo/data'' = None \<and>
   calls (snd (Delete exP (exVolume ''/exportfoo'') exTenants)) = [CallRelease, CallRemoveAll ''/mnt/efs/foo'']"
  by code_simp

text \<open>
  C2. A reuse-mode request for a directory that does not exist yet, in a world where the
  write of the sidecar file fails: \<^verbatim>\<open>Provision\<close> calls the write, does not look at what it
  returns, and returns the volume. No sidecar file is there afterwards, and the same
  request made again fails with the missing-metadata error.
\<close>

theorem C2_write_failure_ignored:
  "fst (Provision exP exReuse (exWorld [] [CallWriteFile exSidecar])) =
     Inr \<lparr>pv_Name = ''pvc-1'', pv_Annotations = [(VolumeGidAnnotationKey, ''2000'')],
          pv_ReclaimPolicy = ''Delete'', pv_AccessModes = [''ReadWriteMany''], pv_Capacity = ''1Gi'',
          pv_NFS = Some \<lparr>nfs_Server = ''fs.example.com'', nfs_Path = ''/export/claim-a-ns1'',
                          nfs_ReadOnly = False\<rparr>,
          pv_MountOptions = [''vers=4.1'']\<rparr> \<and>
   calls (snd (Provision exP exReuse (exWorld [] [CallWriteFile exSidecar]))) =
     [CallStat exDir, CallAllocateNext, CallMkdirAll exDir, CallChmod exDir, CallChgrp exDir,
      CallWriteFile exSidecar] \<and>
   map_of (nodes (snd (Provision exP exReuse (exWorld [] [CallWriteFile exSidecar])))) exSidecar = None \<and>
   fst (Provision exP exReuse (snd (Provision exP exReuse (exWorld [] [CallWriteFile exSidecar])))) =
     Inl ErrNoMetadata"
  by code_simp

text \<open>
  C3. In reuse mode, when the target directory exists and the storage class, the claim
  name or the claim namespace of its metadata differs from the request's, provisioning
  fails with an ownership-mismatch error; the file system and the allocation table are
  as before, and the only calls made are the stat of the directory and the read of the
  sidecar file.
\<close>

theorem C3_ownership_mismatch:
  assumes "pvc_Selector (PVC options) = None"
    and "reuseVolumesOption options = Inr True"
    and "getLocalPath p options = Inr volumePath"
    and "\<not> refused w (CallStat volumePath)"
    and "map_of (nodes w) volumePath = Some (Dir g m)"
    and "\<not> refused w (CallReadFile (getMetaDataPath volumePath))"
    and "map_of (nodes w) (getMetaDataPath volumePath) = Some (File fg fm (Json md))"
    and "StorageClassName md \<noteq> GetPersistentVolumeClaimClass (PVC options) \<or>
         PVCName md \<noteq> pvc_Name (PVC options) \<or>
         PVCNamespace md \<noteq> pvc_Namespace (PVC options)"
  shows "(fst (Provision p options w) = Inl ErrStorageClassMismatch \<or>
          fst (Provision p options w) = Inl ErrClaimMismatch) \<and>
         nodes (snd (Provision p options w)) = nodes w \<and>
         table (snd (Provision p options w)) = table w \<and>
         calls (snd (Provision p options w)) =
           calls w @ [CallStat volumePath, CallReadFile (getMetaDataPath volumePath)]"
proof -
  have "Provision p options w =
      (case validatePreexistingVolume options (Some md) volumePath g of
         Some err \<Rightarrow> (Inl err, log (CallReadFile (getMetaDataPath volumePath)) (log (CallStat volumePath) w))
       | None \<Rightarrow> Provision p options w)"
    using assms(1-7)
    by (simp add: Provision_def volumeExists_dir Provision_existing_def readVolumeMetadata_file
        split: option.splits)
  moreover have "validatePreexistingVolume options (Some md) volumePath g = Some ErrStorageClassMismatch \<or>
      validatePreexistingVolume options (Some md) volumePath g = Some ErrClaimMismatch"
    using assms(8) by (auto simp: validatePreexistingVolume_def)
  ultimately show ?thesis
    by (elim disjE) simp_all
qed

theorem C3_ownership_mismatch_witness:
  "fst (Provision exP exReuse (exExisting 2000 (Json (exMeta ''2000'' ''claim-b'')))) =
     Inl ErrClaimMismatch \<and>
   nodes (snd (Provision exP exReuse (exExisting 2000 (Json (exMeta ''2000'' ''claim-b''))))) =
     nodes (exExisting 2000 (Json (exMeta ''2000'' ''claim-b'')))"
proof -
  have d: "PVCName (exMeta ''2000'' ''claim-b'') \<noteq> pvc_Name (PVC exReuse)"
    by code_simp
  have e: "fst (Provision exP exReuse (exExisting 2000 (Json (exMeta ''2000'' ''claim-b'')))) =
     Inl ErrClaimMismatch"
    by code_simp
  show ?thesis
    using e C3_ownership_mismatch [OF exReuse_facts(1,2,3),
        of "exExisting 2000 (Json (exMeta ''2000'' ''claim-b''))" 2000 "505 OR ModeSetgid"
           0 384 "exMeta ''2000'' ''claim-b''"] d
    by (simp add: exReuse_facts(4))
qed



text \<open>
  C5. In reuse mode, when the target directory exists: with no sidecar file the
  metadata read returns "none" and no error, and provisioning fails with the
  missing-metadata error; with a sidecar file that does not parse the metadata read
  returns an error, and provisioning fails. Neither changes the file system or the
  allocation table.
\<close>

theorem C5_missing_metadata:
  assumes "pvc_Selector (PVC options) = None"
    and "reuseVolumesOption options = Inr True"
    and "getLocalPath p options = Inr volumePath"
    and "\<not> refused w (CallStat volumePath)"
    and "map_of (nodes w) volumePath = Some (Dir g m)"
    and "\<not> refused w (CallReadFile (getMetaDataPath volumePath))"
  shows "(map_of (nodes w) (getMetaDataPath volumePath) = None \<longrightarrow>
            fst (readVolumeMetadata w volumePath) = Inr None \<and>
            fst (Provision p options w) = Inl ErrNoMetadata \<and>
            nodes (snd (Provision p options w)) = nodes w \<and>
            table (snd (Provision p options w)) = table w) \<and>
         (map_of (nodes w) (getMetaDataPath volumePath) = Some (File fg fm (Unparsable bytes)) \<longrightarrow>
            fst (readVolumeMetadata w volumePath) = Inl ErrUnmarshal \<and>
            fst (Provision p options w) = Inl ErrReadMetadataFailed \<and>
            nodes (snd (Provision p options w)) = nodes w \<and>
            table (snd (Provision p options w)) = table w)"
  using assms
  by (simp add: Provision_def volumeExists_dir Provision_existing_def readVolumeMetadata_absent
      readVolumeMetadata_file validatePreexistingVolume_def)

theorem C5_missing_metadata_witness:
  "fst (readVolumeMetadata (exWorld [(exDir, Dir 2000 505)] []) exDir) = Inr None \<and>
   fst (Provision exP exReuse (exWorld [(exDir, Dir 2000 505)] [])) = Inl ErrNoMetadata \<and>
   fst (readVolumeMetadata
          (exWorld [(exDir, Dir 2000 505), (exSidecar, File 0 384 (Unparsable ''{''))] []) exDir)
     = Inl ErrUnmarshal \<and>
   fst (Provision exP exReuse
          (exWorld [(exDir, Dir 2000 505), (exSidecar, File 0 384 (Unparsable ''{''))] []))
     = Inl ErrReadMetadataFailed"
proof -
  have ne: "exDir \<noteq> ''/mnt/efs''" "exSidecar \<noteq> ''/mnt/efs''" "exSidecar \<noteq> exDir"
    by (simp_all add: exDir_def exSidecar_def)
  have a: "map_of (nodes (exWorld [(exDir, Dir 2000 505)] [])) exDir = Some (Dir 2000 505)"
    and b: "map_of (nodes (exWorld [(exDir, Dir 2000 505)] [])) (getMetaDataPath exDir) = None"
    using ne by (simp_all add: exReuse_facts)
  have c: "map_of (nodes (exWorld [(exDir, Dir 2000 505),
              (exSidecar, File 0 384 (Unparsable ''{''))] [])) exDir = Some (Dir 2000 505)"
    and d: "map_of (nodes (exWorld [(exDir, Dir 2000 505),
              (exSidecar, File 0 384 (Unparsable ''{''))] [])) (getMetaDataPath exDir)
            = Some (File 0 384 (Unparsable ''{''))"
    using ne by (simp_all add: exReuse_facts)
  show ?thesis
    using C5_missing_metadata [OF exReuse_facts(1,2,3) _ a, of 0 384 "''{''"]
      C5_missing_metadata [OF exReuse_facts(1,2,3) _ c, of 0 384 "''{''"] b d
    by simp
qed



text \<open>
  C7. \<^verbatim>\<open>Reclaim\<close> returns an error exactly when the listing of the base path fails, and
  then that error. In the scan, an entry that is not a directory, whose metadata read
  fails, that has no metadata, an empty GID, another storage class, a GID that does not
  parse, or a GID already in the table is passed over: the scan goes on with the rest
  of the entries, and the table and the file system are as before the entry.
\<close>

theorem C7_reclaim_best_effort:
  "((fst (Reclaim f classname w) = None) = (\<exists>entries. fst (os_ReadDir w (BasePath f)) = Inr entries)) \<and>
   (\<forall>err. fst (Reclaim f classname w) = Some err \<longrightarrow> fst (os_ReadDir w (BasePath f)) = Inl err) \<and>
   (\<not> snd entry \<or>
    (\<exists>err. fst (readVolumeMetadata w (Join [base, fst entry])) = Inl err) \<or>
    fst (readVolumeMetadata w (Join [base, fst entry])) = Inr None \<or>
    (\<exists>md. fst (readVolumeMetadata w (Join [base, fst entry])) = Inr (Some md) \<and>
          (GID md = [] \<or> StorageClassName md \<noteq> classname \<or> Atoi (GID md) = None \<or>
           (\<exists>gid. Atoi (GID md) = Some gid \<and> gid \<in> set (used (table w)))))
    \<longrightarrow> (\<exists>w1. Reclaim_entries base classname (entry # entries) w =
                 Reclaim_entries base classname entries w1 \<and>
              table w1 = table w \<and> nodes w1 = nodes w \<and> refused w1 = refused w))"
proof -
  obtain r w1 where rd: "readVolumeMetadata w (Join [base, fst entry]) = (r, w1)"
    by (cases "readVolumeMetadata w (Join [base, fst entry])")
  have w1: "w1 = log (CallReadFile (getMetaDataPath (Join [base, fst entry]))) w"
    using readVolumeMetadata_world [of w "Join [base, fst entry]"] rd by simp
  have a: "(fst (Reclaim f classname w) = None) = (\<exists>entries. fst (os_ReadDir w (BasePath f)) = Inr entries)"
    by (cases "os_ReadDir w (BasePath f)") (auto simp: Reclaim_def split: sum.splits)
  have b: "\<forall>err. fst (Reclaim f classname w) = Some err \<longrightarrow> fst (os_ReadDir w (BasePath f)) = Inl err"
    by (cases "os_ReadDir w (BasePath f)") (auto simp: Reclaim_def split: sum.splits)
  have c: "\<exists>w1. Reclaim_entries base classname (entry # entries) w =
                 Reclaim_entries base classname entries w1 \<and>
              table w1 = table w \<and> nodes w1 = nodes w \<and> refused w1 = refused w"
    if skip: "\<not> snd entry \<or> (\<exists>err. r = Inl err) \<or> r = Inr None \<or>
       (\<exists>md. r = Inr (Some md) \<and>
          (GID md = [] \<or> StorageClassName md \<noteq> classname \<or> Atoi (GID md) = None \<or>
           (\<exists>gid. Atoi (GID md) = Some gid \<and> gid \<in> set (used (table w)))))"
  proof (cases "snd entry")
    case False
    then have "Reclaim_entries base classname (entry # entries) w =
        Reclaim_entries base classname entries w" by simp
    then show ?thesis by blast
  next
    case True
    from skip True consider
        (err) err where "r = Inl err"
      | (none) "r = Inr None"
      | (other) md where "r = Inr (Some md)"
          "GID md = [] \<or> StorageClassName md \<noteq> classname \<or> Atoi (GID md) = None"
      | (conflict) md gid where "r = Inr (Some md)" "GID md \<noteq> []" "StorageClassName md = classname"
          "Atoi (GID md) = Some gid" "gid \<in> set (used (table w))"
      by blast
    then show ?thesis
    proof cases
      case err
      from Reclaim_entries_step(1) [OF rd True this] show ?thesis
        using w1 by (intro exI [of _ w1]) simp
    next
      case none
      from Reclaim_entries_step(2) [OF rd True this] show ?thesis
        using w1 by (intro exI [of _ w1]) simp
    next
      case other
      from Reclaim_entries_step(3) [OF rd True this] show ?thesis
        using w1 by (intro exI [of _ w1]) simp
    next
      case conflict
      have "gid \<in> set (used (table w1))" using conflict(5) w1 by simp
      then obtain e where "table_Allocate (table w1) gid = Inl e"
        using table_Allocate_used by blast
      from Reclaim_entries_step(4) [OF rd True conflict(1-4) this] show ?thesis
        using w1 by (intro exI [of _ "log (CallAllocate gid) w1"]) simp
    qed
  qed
  show ?thesis
    using a b c rd by simp
qed


theorem C7_reclaim_best_effort_witness:
  "fst (Reclaim \<lparr>BasePath = ''/mnt/efs''\<rparr> ''efs'' (exFleet [])) = None \<and>
   used (table (snd (Reclaim \<lparr>BasePath = ''/mnt/efs''\<rparr> ''efs'' (exFleet [])))) = [2000] \<and>
   table (Reclaim_entries ''/mnt/efs'' ''efs'' [(''claim-b-ns1'', True)] (exFleet [2000])) =
     table (exFleet [2000])"
proof -
  have l: "fst (os_ReadDir (exFleet []) (BasePath \<lparr>BasePath = ''/mnt/efs''\<rparr>)) =
      Inr [(''claim-a-ns1'', True), (''claim-b-ns1'', True), (''claim-c-ns1'', True),
           (''claim-d-pvc-7'', True), (''notes.txt'', False)]"
    by code_simp
  have u: "used (table (snd (Reclaim \<lparr>BasePath = ''/mnt/efs''\<rparr> ''efs'' (exFleet [])))) = [2000]"
    by code_simp
  have r: "fst (readVolumeMetadata (exFleet [2000]) (Join [''/mnt/efs'', fst (''claim-b-ns1'', True)])) =
      Inr (Some (exMeta ''2000'' ''claim-b''))"
    by code_simp
  have a: "Atoi (GID (exMeta ''2000'' ''claim-b'')) = Some 2000"
    by code_simp
  have m: "(2000::int) \<in> set (used (table (exFleet [2000])))"
    by (simp add: exFleet_def)
  have h: "\<exists>md. fst (readVolumeMetadata (exFleet [2000]) (Join [''/mnt/efs'', fst (''claim-b-ns1'', True)])) =
         Inr (Some md) \<and>
       (GID md = [] \<or> StorageClassName md \<noteq> ''efs'' \<or> Atoi (GID md) = None \<or>
        (\<exists>gid. Atoi (GID md) = Some gid \<and> gid \<in> set (used (table (exFleet [2000])))))"
    using r a m by blast
  have c: "\<exists>w1. Reclaim_entries ''/mnt/efs'' ''efs'' [(''claim-b-ns1'', True)] (exFleet [2000]) =
        Reclaim_entries ''/mnt/efs'' ''efs'' [] w1 \<and> table w1 = table (exFleet [2000])"
    using C7_reclaim_best_effort [of "\<lparr>BasePath = ''/mnt/efs''\<rparr>" "''efs''" "exFleet [2000]"
        "(''claim-b-ns1'', True)" "''/mnt/efs''" "[]"] h
    by blast
  have n: "fst (Reclaim \<lparr>BasePath = ''/mnt/efs''\<rparr> ''efs'' (exFleet [])) = None"
    using C7_reclaim_best_effort [of "\<lparr>BasePath = ''/mnt/efs''\<rparr>" "''efs''" "exFleet []"
        "(''notes.txt'', False)" "''/mnt/efs''" "[]"] l
    by blast
  show ?thesis
    using n u c by auto
qed



text \<open>
  C9. With the mount source \<^verbatim>\<open>fs.example.com:/export\<close>, the server \<^verbatim>\<open>fs.example.com\<close>
  and the mount point \<^verbatim>\<open>/mnt/efs\<close>, a request whose directory name is \<^verbatim>\<open>claim-a-ns1\<close>
  has the local path \<^verbatim>\<open>/mnt/efs/claim-a-ns1\<close> and the remote path
  \<^verbatim>\<open>/export/claim-a-ns1\<close>: the mount point joined with the name, and the source less
  \<^verbatim>\<open>server:\<close>, cleaned, joined with the name.
\<close>

theorem C9_path_translation:
  assumes "dnsName p = ''fs.example.com''"
    and "source p = ''fs.example.com:/export''"
    and "mountpoint p = ''/mnt/efs''"
    and "getDirectoryName p options = Inr ''claim-a-ns1''"
  shows "getLocalPath p options = Inr ''/mnt/efs/claim-a-ns1'' \<and>
         getRemotePath p options = Inr ''/export/claim-a-ns1'' \<and>
         getLocalPath p options = Inr (Join [mountpoint p, ''claim-a-ns1'']) \<and>
         getRemotePath p options =
           Inr (Join [Clean (Replace1 (source p) (dnsName p @ '':'') []), ''claim-a-ns1''])"
proof -
  have l: "getLocalPath p options = Inr (Join [mountpoint p, ''claim-a-ns1''])"
    using assms(4) by (simp add: getLocalPath_def)
  have r: "getRemotePath p options =
           Inr (Join [Clean (Replace1 (source p) (dnsName p @ '':'') []), ''claim-a-ns1''])"
    using assms(4) by (simp add: getRemotePath_def)
  have a: "dnsName p @ '':'' = ''fs.example.com:''"
    by (simp add: assms(1))
  have l': "Join [mountpoint p, ''claim-a-ns1''] = ''/mnt/efs/claim-a-ns1''"
    by (simp only: assms(3) ex_paths)
  have r': "Join [Clean (Replace1 (source p) (dnsName p @ '':'') []), ''claim-a-ns1'']
            = ''/export/claim-a-ns1''"
    by (simp only: a assms(2) ex_paths)
  show ?thesis
    using l r l' r' by simp
qed

theorem C9_path_translation_witness:
  "getLocalPath exP exReuse = Inr ''/mnt/efs/claim-a-ns1'' \<and>
   getRemotePath exP exReuse = Inr ''/export/claim-a-ns1''"
proof -
  have "dnsName exP = ''fs.example.com''" "source exP = ''fs.example.com:/export''"
    "mountpoint exP = ''/mnt/efs''"
    by (simp_all add: exP_def)
  moreover have "getDirectoryName exP exReuse = Inr ''claim-a-ns1''"
    by code_simp
  ultimately show ?thesis
    using C9_path_translation [of exP exReuse] by blast
qed

text \<open>
  C10, as stated, fails for a request that allocates no GID: the target directory keeps
  its group (here 2001), only its permission is replaced.
\<close>

theorem C10_group_kept_without_gid:
  "fst (Provision exP exNoGid exOccupied) = Inr (exPublished [] ''/export/claim-a-pvc-1'') \<and>
   map_of (nodes exOccupied) exEphDir = Some (Dir 2001 448) \<and>
   map_of (nodes (snd (Provision exP exNoGid exOccupied))) exEphDir = Some (Dir 2001 511)"
  by code_simp

text \<open>
  C10, amended. In ephemeral mode, for a request whose target path holds a directory:
  \<^verbatim>\<open>Provision\<close> makes no stat of the target and no read or write of a sidecar file (its
  calls are the allocator's, MkdirAll, Chmod, chgrp and, after a failure, RemoveAll);
  an error it returns is one of five, none of them an already-exists or file-type
  error (\<open>ErrIsFile\<close>, \<open>ErrNotDir\<close>, or an error of the validation); MkdirAll on
  the directory succeeds and changes nothing; and when a volume is returned the
  directory has the permission of the request, and the allocated GID as its group when
  a GID was allocated, and its old group when none was. The request succeeds whenever
  the calls are not refused and the allocated GID is a group id.
\<close>

theorem C10_ephemeral_existing_directory:
  assumes sel: "pvc_Selector (PVC options) = None"
    and eph: "reuseVolumesOption options = Inr False"
    and loc: "getLocalPath p options = Inr volumePath"
    and dir: "map_of (nodes w) volumePath = Some (Dir g0 m0)"
  shows "(\<forall>err. fst (Provision p options w) = Inl err \<longrightarrow>
            err \<in> {ErrInvalidGidAllocate, ErrAllocator, ErrNoFreeGid, ErrIO, ErrChgrpFailed}) \<and>
         (\<exists>cs. calls (snd (Provision p options w)) = calls w @ cs \<and>
               set cs \<subseteq> {CallAllocateNext, CallMkdirAll volumePath, CallChmod volumePath,
                          CallChgrp volumePath, CallRemoveAll volumePath}) \<and>
         (\<not> refused w (CallMkdirAll volumePath) \<longrightarrow>
            fst (os_MkdirAll w volumePath perm) = None \<and>
            nodes (snd (os_MkdirAll w volumePath perm)) = nodes w) \<and>
         (\<forall>pv. fst (Provision p options w) = Inr pv \<longrightarrow>
            pv_Annotations pv = [] \<and>
              map_of (nodes (snd (Provision p options w))) volumePath = Some (Dir g0 511) \<or>
            (\<exists>g. pv_Annotations pv = [(VolumeGidAnnotationKey, Itoa g)] \<and>
                 map_of (nodes (snd (Provision p options w))) volumePath =
                   Some (Dir (word_of_int g) (505 OR ModeSetgid)))) \<and>
         (\<not> refused w (CallMkdirAll volumePath) \<and> \<not> refused w (CallChmod volumePath) \<and>
          gidAllocate_params (Parameters options) True = Inr False \<longrightarrow>
            (\<exists>pv. fst (Provision p options w) = Inr pv \<and> pv_Annotations pv = [])) \<and>
         (\<forall>g. \<not> refused w (CallMkdirAll volumePath) \<and> \<not> refused w (CallChmod volumePath) \<and>
              \<not> refused w (CallChgrp volumePath) \<and>
              gidAllocate_params (Parameters options) True = Inr True \<and>
              fst (AllocateNext w options) = Inr g \<and> 0 \<le> g \<and> g < 2 ^ 32 \<longrightarrow>
            (\<exists>pv. fst (Provision p options w) = Inr pv \<and>
                  pv_Annotations pv = [(VolumeGidAnnotationKey, Itoa g)]))"
proof -
  note P = Provision_ephemeral [OF sel eph loc, of w]
  note N = Provision_new_ephemeral [of options volumePath w]
  let ?wa = "snd (AllocateNext w options)"
  have dira: "map_of (nodes ?wa) volumePath = Some (Dir g0 m0)"
    using dir by (simp add: AllocateNext_frame)
  have pub: "\<And>gid. \<exists>pv. Provision_publish p options gid = Inr pv \<and>
        pv_Annotations pv = (case gid of None \<Rightarrow> [] | Some g \<Rightarrow> [(VolumeGidAnnotationKey, Itoa g)])"
    using Provision_publish_ok [OF loc] by blast
  have c1: "\<forall>err. fst (Provision p options w) = Inl err \<longrightarrow>
            err \<in> {ErrInvalidGidAllocate, ErrAllocator, ErrNoFreeGid, ErrIO, ErrChgrpFailed}"
  proof (intro allI impI)
    fix err assume e: "fst (Provision p options w) = Inl err"
    show "err \<in> {ErrInvalidGidAllocate, ErrAllocator, ErrNoFreeGid, ErrIO, ErrChgrpFailed}"
    proof (cases "gidAllocate_params (Parameters options) True")
      case (Inl a)
      then show ?thesis
        using e P N gidAllocate_params_error [OF Inl] by simp
    next
      case (Inr b)
      show ?thesis
      proof (cases b)
        case True
        show ?thesis
        proof (cases "fst (AllocateNext w options)")
          case (Inl a)
          then show ?thesis
            using e P N Inr True AllocateNext_error [OF Inl] by auto
        next
          case g: (Inr g)
          show ?thesis
          proof (cases "fst (createVolume ?wa volumePath (Some g))")
            case None
            then show ?thesis
              using e P N Inr True g pub [of "Some g"] by auto
          next
            case (Some a)
            then show ?thesis
              using e P N Inr True g createVolume_existing_error [OF dira Some] by auto
          qed
        qed
      next
        case False
        show ?thesis
        proof (cases "fst (createVolume w volumePath None)")
          case None
          then show ?thesis
            using e P N Inr False pub [of None] by auto
        next
          case (Some a)
          then show ?thesis
            using e P N Inr False createVolume_existing_error [OF dir Some] by auto
        qed
      qed
    qed
  qed
  have c2: "\<exists>cs. calls (snd (Provision p options w)) = calls w @ cs \<and>
               set cs \<subseteq> {CallAllocateNext, CallMkdirAll volumePath, CallChmod volumePath,
                          CallChgrp volumePath, CallRemoveAll volumePath}"
  proof (cases "gidAllocate_params (Parameters options) True")
    case (Inl a)
    then show ?thesis using P N by simp
  next
    case (Inr b)
    show ?thesis
    proof (cases b)
      case True
      show ?thesis
      proof (cases "fst (AllocateNext w options)")
        case (Inl a)
        then have "calls (snd (Provision p options w)) = calls w @ [CallAllocateNext]"
          using P N Inr True by (simp add: AllocateNext_frame)
        then show ?thesis by simp
      next
        case g: (Inr g)
        from createVolume_calls [of ?wa volumePath "Some g"] obtain cs where
          cs: "calls (snd (createVolume ?wa volumePath (Some g))) = calls ?wa @ cs"
          "set cs \<subseteq> {CallMkdirAll volumePath, CallChmod volumePath, CallChgrp volumePath,
                     CallRemoveAll volumePath}" by blast
        have "snd (Provision p options w) = snd (createVolume ?wa volumePath (Some g))"
          using P N Inr True g by (simp split: option.splits sum.splits)
        then have "calls (snd (Provision p options w)) = calls w @ (CallAllocateNext # cs)"
          using cs(1) by (simp add: AllocateNext_frame)
        moreover have "set (CallAllocateNext # cs) \<subseteq> {CallAllocateNext, CallMkdirAll volumePath,
            CallChmod volumePath, CallChgrp volumePath, CallRemoveAll volumePath}"
          using cs(2) by auto
        ultimately show ?thesis by blast
      qed
    next
      case False
      from createVolume_calls [of w volumePath None] obtain cs where
        cs: "calls (snd (createVolume w volumePath None)) = calls w @ cs"
        "set cs \<subseteq> {CallMkdirAll volumePath, CallChmod volumePath, CallChgrp volumePath,
                   CallRemoveAll volumePath}" by blast
      have "snd (Provision p options w) = snd (createVolume w volumePath None)"
        using P N Inr False by (simp split: option.splits sum.splits)
      then show ?thesis using cs by auto
    qed
  qed
  have c3: "\<not> refused w (CallMkdirAll volumePath) \<longrightarrow>
            fst (os_MkdirAll w volumePath perm) = None \<and>
            nodes (snd (os_MkdirAll w volumePath perm)) = nodes w"
    using dir by (simp add: os_MkdirAll_def MkdirAll_nodes_existing)
  have c4: "\<forall>pv. fst (Provision p options w) = Inr pv \<longrightarrow>
            pv_Annotations pv = [] \<and>
              map_of (nodes (snd (Provision p options w))) volumePath = Some (Dir g0 511) \<or>
            (\<exists>g. pv_Annotations pv = [(VolumeGidAnnotationKey, Itoa g)] \<and>
                 map_of (nodes (snd (Provision p options w))) volumePath =
                   Some (Dir (word_of_int g) (505 OR ModeSetgid)))"
  proof (intro allI impI)
    fix pv assume ok: "fst (Provision p options w) = Inr pv"
    obtain b where b: "gidAllocate_params (Parameters options) True = Inr b"
      using ok P N by (cases "gidAllocate_params (Parameters options) True") auto
    show "pv_Annotations pv = [] \<and>
              map_of (nodes (snd (Provision p options w))) volumePath = Some (Dir g0 511) \<or>
            (\<exists>g. pv_Annotations pv = [(VolumeGidAnnotationKey, Itoa g)] \<and>
                 map_of (nodes (snd (Provision p options w))) volumePath =
                   Some (Dir (word_of_int g) (505 OR ModeSetgid)))"
    proof (cases b)
      case True
      obtain g where g: "fst (AllocateNext w options) = Inr g"
        using ok P N b True by (cases "fst (AllocateNext w options)") auto
      have cv: "fst (createVolume ?wa volumePath (Some g)) = None"
        using ok P N b True g by (cases "fst (createVolume ?wa volumePath (Some g))") auto
      then have cv': "createVolume ?wa volumePath (Some g) =
          (None, snd (createVolume ?wa volumePath (Some g)))"
        by (simp add: prod_eq_iff)
      from createVolume_ok [OF cv'] obtain e where
        e: "map_of (nodes (snd (createVolume ?wa volumePath (Some g)))) volumePath =
              Some (Dir e (volume_perm (Some g)))" "ParseUint32 (Itoa g) = Some e"
        by blast
      have "e = word_of_int g"
        using e(2) by (simp add: ParseUint32_Itoa split: if_splits)
      moreover have "snd (Provision p options w) = snd (createVolume ?wa volumePath (Some g))"
        and "fst (Provision p options w) = Provision_publish p options (Some g)"
        using P N b True g cv by simp_all
      ultimately show ?thesis
        using e(1) ok pub [of "Some g"] by (auto simp: volume_perm_def)
    next
      case False
      have cv: "fst (createVolume w volumePath None) = None"
        using ok P N b False by (cases "fst (createVolume w volumePath None)") auto
      then have cv': "createVolume w volumePath None = (None, snd (createVolume w volumePath None))"
        by (simp add: prod_eq_iff)
      from createVolume_ok [OF cv'] dir have
        "map_of (nodes (snd (createVolume w volumePath None))) volumePath =
              Some (Dir g0 (volume_perm None))"
        by auto
      moreover have "snd (Provision p options w) = snd (createVolume w volumePath None)"
        and "fst (Provision p options w) = Provision_publish p options None"
        using P N b False cv by simp_all
      ultimately show ?thesis
        using ok pub [of None] by (auto simp: volume_perm_def)
    qed
  qed
  have c5: "\<not> refused w (CallMkdirAll volumePath) \<and> \<not> refused w (CallChmod volumePath) \<and>
          gidAllocate_params (Parameters options) True = Inr False \<longrightarrow>
            (\<exists>pv. fst (Provision p options w) = Inr pv \<and> pv_Annotations pv = [])"
  proof (intro impI, elim conjE)
    assume h: "\<not> refused w (CallMkdirAll volumePath)" "\<not> refused w (CallChmod volumePath)"
      "gidAllocate_params (Parameters options) True = Inr False"
    have "fst (createVolume w volumePath None) = None"
      using createVolume_existing_succeeds [OF dir h(1,2), of None] by simp
    then have "fst (Provision p options w) = Provision_publish p options None"
      using P N h(3) by simp
    then show "\<exists>pv. fst (Provision p options w) = Inr pv \<and> pv_Annotations pv = []"
      using pub [of None] by auto
  qed
  have c6: "\<forall>g. \<not> refused w (CallMkdirAll volumePath) \<and> \<not> refused w (CallChmod volumePath) \<and>
              \<not> refused w (CallChgrp volumePath) \<and>
              gidAllocate_params (Parameters options) True = Inr True \<and>
              fst (AllocateNext w options) = Inr g \<and> 0 \<le> g \<and> g < 2 ^ 32 \<longrightarrow>
            (\<exists>pv. fst (Provision p options w) = Inr pv \<and>
                  pv_Annotations pv = [(VolumeGidAnnotationKey, Itoa g)])"
  proof (intro allI impI, elim conjE)
    fix g
    assume h: "\<not> refused w (CallMkdirAll volumePath)" "\<not> refused w (CallChmod volumePath)"
      "\<not> refused w (CallChgrp volumePath)"
      "gidAllocate_params (Parameters options) True = Inr True"
      "fst (AllocateNext w options) = Inr g" "0 \<le> g" "g < 2 ^ 32"
    have "fst (createVolume ?wa volumePath (Some g)) = None"
      using createVolume_existing_succeeds [OF dira, of "Some g"] h
      by (simp add: AllocateNext_frame)
    then have "fst (Provision p options w) = Provision_publish p options (Some g)"
      using P N h(4,5) by simp
    then show "\<exists>pv. fst (Provision p options w) = Inr pv \<and>
                  pv_Annotations pv = [(VolumeGidAnnotationKey, Itoa g)]"
      using pub [of "Some g"] by auto
  qed
  show ?thesis
    using c1 c2 c3 c4 c5 c6 by blast
qed

theorem C10_ephemeral_existing_directory_witness:
  "(\<exists>pv. fst (Provision exP exEphemeral exOccupied) = Inr pv \<and>
         pv_Annotations pv = [(VolumeGidAnnotationKey, Itoa 2000)]) \<and>
   map_of (nodes (snd (Provision exP exEphemeral exOccupied))) exEphDir =
     Some (Dir 2000 (505 OR ModeSetgid)) \<and>
   (\<exists>pv. fst (Provision exP exNoGid exOccupied) = Inr pv \<and> pv_Annotations pv = []) \<and>
   fst (os_MkdirAll exOccupied exEphDir 511) = None \<and>
   nodes (snd (os_MkdirAll exOccupied exEphDir 511)) = nodes exOccupied"
proof -
  have e: "pvc_Selector (PVC exEphemeral) = None" "reuseVolumesOption exEphemeral = Inr False"
    "getLocalPath exP exEphemeral = Inr exEphDir"
    and n: "pvc_Selector (PVC exNoGid) = None" "reuseVolumesOption exNoGid = Inr False"
    "getLocalPath exP exNoGid = Inr exEphDir"
    by code_simp+
  have d: "map_of (nodes exOccupied) exEphDir = Some (Dir 2001 448)"
    by code_simp
  have r: "\<not> refused exOccupied (CallMkdirAll exEphDir)" "\<not> refused exOccupied (CallChmod exEphDir)"
    "\<not> refused exOccupied (CallChgrp exEphDir)"
    by (simp_all add: exOccupied_def)
  have g: "gidAllocate_params (Parameters exEphemeral) True = Inr True"
    "gidAllocate_params (Parameters exNoGid) True = Inr False"
    "fst (AllocateNext exOccupied exEphemeral) = Inr 2000"
    by code_simp+
  have a: "map_of (nodes (snd (Provision exP exEphemeral exOccupied))) exEphDir =
     Some (Dir 2000 (505 OR ModeSetgid))"
    by code_simp
  show ?thesis
    using C10_ephemeral_existing_directory [OF e d, of 511]
      C10_ephemeral_existing_directory [OF n d, of 511] r g a
    by simp
qed

end
